theory Spec2Isabelle
  imports Complex_Main "HOL-Library.AList"
begin

section \<open>JavaScript values used by the pipeline\<close>

text \<open>
  The bias pipeline of the extension is written in JavaScript.  The embedding keeps the
  source's names.  Numbers are modelled by real numbers together with the three special
  values a division can produce (\<open>x / 0\<close>, \<open>0 / 0\<close>); rounding of IEEE doubles is not
  modelled.  An exception is a value of type \<open>js_error\<close>; a function that returns
  \<^verbatim>\<open>{success: true, ...}\<close> or \<^verbatim>\<open>{success: false, error}\<close> returns a \<open>reply\<close>.
\<close>

datatype jsnum = Num real | PosInf | NegInf | NaN

datatype jsval = JUndefined | JBool bool | JNum real | JStr string

datatype js_error = Error string | TypeError string | ReferenceError string

datatype 'a reply = Success 'a | Failure string

fun message :: "js_error \<Rightarrow> string" where
  "message (Error m) = m"
| "message (TypeError m) = m"
| "message (ReferenceError m) = m"

text \<open>Truthiness, as \<^verbatim>\<open>if (v)\<close> and \<^verbatim>\<open>!v\<close> evaluate it.\<close>

fun truthy :: "jsval \<Rightarrow> bool" where
  "truthy JUndefined = False"
| "truthy (JBool b) = b"
| "truthy (JNum x) = (x \<noteq> 0)"
| "truthy (JStr s) = (s \<noteq> [])"

text \<open>Reading a property of an object held as a map: an absent key reads \<^verbatim>\<open>undefined\<close>.\<close>

definition get_prop :: "(string \<rightharpoonup> jsval) \<Rightarrow> string \<Rightarrow> jsval" where
  "get_prop obj k = (case obj k of None \<Rightarrow> JUndefined | Some v \<Rightarrow> v)"

text \<open>The relational operators on numbers: every comparison with NaN is false.\<close>

fun js_less :: "jsnum \<Rightarrow> jsnum \<Rightarrow> bool" where
  "js_less (Num a) (Num b) = (a < b)"
| "js_less (Num a) PosInf = True"
| "js_less NegInf (Num b) = True"
| "js_less NegInf PosInf = True"
| "js_less _ _ = False"

definition js_greater :: "jsnum \<Rightarrow> jsnum \<Rightarrow> bool" where
  "js_greater a b = js_less b a"

text \<open>Division.  The sign of a zero is not modelled: a zero divisor counts as \<open>+0\<close>.\<close>

fun js_divide :: "jsnum \<Rightarrow> jsnum \<Rightarrow> jsnum" where
  "js_divide (Num a) (Num b) =
     (if b \<noteq> 0 then Num (a / b)
      else if a = 0 then NaN
      else if 0 < a then PosInf else NegInf)"
| "js_divide NaN _ = NaN"
| "js_divide _ NaN = NaN"
| "js_divide (Num a) _ = Num 0"
| "js_divide PosInf (Num b) = (if b < 0 then NegInf else PosInf)"
| "js_divide NegInf (Num b) = (if b < 0 then PosInf else NegInf)"
| "js_divide _ _ = NaN"

text \<open>
  Addition, subtraction and the third power (\<^verbatim>\<open>Math.pow(x, 3)\<close>).  NaN is absorbing, and
  opposite infinities add to NaN.
\<close>

fun js_neg :: "jsnum \<Rightarrow> jsnum" where
  "js_neg (Num a) = Num (- a)"
| "js_neg PosInf = NegInf"
| "js_neg NegInf = PosInf"
| "js_neg NaN = NaN"

fun js_add :: "jsnum \<Rightarrow> jsnum \<Rightarrow> jsnum" where
  "js_add (Num a) (Num b) = Num (a + b)"
| "js_add NaN _ = NaN"
| "js_add _ NaN = NaN"
| "js_add PosInf NegInf = NaN"
| "js_add NegInf PosInf = NaN"
| "js_add PosInf _ = PosInf"
| "js_add _ PosInf = PosInf"
| "js_add NegInf _ = NegInf"
| "js_add _ NegInf = NegInf"

definition js_sub :: "jsnum \<Rightarrow> jsnum \<Rightarrow> jsnum" where
  "js_sub a b = js_add a (js_neg b)"

fun js_cube :: "jsnum \<Rightarrow> jsnum" where
  "js_cube (Num a) = Num (a ^ 3)"
| "js_cube x = x"

text \<open>
  \<^verbatim>\<open>Math.min(...xs)\<close> and \<^verbatim>\<open>Math.max(...xs)\<close>: NaN as soon as one argument is NaN, and
  \<open>Infinity\<close> and \<open>-Infinity\<close> with no argument.
\<close>

definition js_min2 :: "jsnum \<Rightarrow> jsnum \<Rightarrow> jsnum" where
  "js_min2 a b = (if a = NaN \<or> b = NaN then NaN else if js_less a b then a else b)"

definition js_max2 :: "jsnum \<Rightarrow> jsnum \<Rightarrow> jsnum" where
  "js_max2 a b = (if a = NaN \<or> b = NaN then NaN else if js_less b a then a else b)"

definition Math_min :: "jsnum list \<Rightarrow> jsnum" where
  "Math_min xs = fold js_min2 xs PosInf"

definition Math_max :: "jsnum list \<Rightarrow> jsnum" where
  "Math_max xs = fold js_max2 xs NegInf"

section \<open>Privacy handler (privacyHandler.js)\<close>

record location =
  country :: "string option"
  timezone :: "string option"

record feature =
  used :: jsval
  frequency :: real

text \<open>
  The raw input object: the properties the handler and the scanner read.  A property that
  is absent is \<open>None\<close>.
\<close>

record content =
  content_text :: "string option"
  userIdentifiers :: "string option"
  location :: "location option"
  features :: "(string \<times> feature) list option"

record generalFeature =
  gused :: jsval
  gfrequency :: string

record anonymized =
  userHash :: "string option"
  region :: "location option"
  afeatures :: "(string \<times> generalFeature) list option"

text \<open>The handler's only state is its settings object, held as a map from property names.\<close>

record privacy_state =
  privacySettings :: "string \<rightharpoonup> jsval"

definition PrivacyHandler_constructor :: privacy_state where
  "PrivacyHandler_constructor =
     \<lparr>privacySettings =
        [''dataRetentionDays'' \<mapsto> JNum 30,
         ''anonymizationLevel'' \<mapsto> JStr ''high'',
         ''consentStatus'' \<mapsto> JBool False]\<rparr>"

definition generalizeFrequency :: "real \<Rightarrow> string" where
  "generalizeFrequency f =
     (if f \<le> 5 then ''low'' else if f \<le> 20 then ''medium'' else ''high'')"

definition generalizeLocation :: "location \<Rightarrow> location" where
  "generalizeLocation l = \<lparr>country = country l, timezone = timezone l\<rparr>"

definition processFeatures :: "(string \<times> feature) list \<Rightarrow> (string \<times> generalFeature) list" where
  "processFeatures fs =
     map (\<lambda>(k, f). (k, \<lparr>gused = used f, gfrequency = generalizeFrequency (frequency f)\<rparr>)) fs"

text \<open>
  \<open>hashIdentifier\<close> calls the platform's SHA-256; the digest function is the parameter
  \<open>sha\<close>.  An empty identifier string is falsy and is skipped like an absent one.
\<close>

definition applyPrivacyMeasures :: "(string \<Rightarrow> string) \<Rightarrow> content \<Rightarrow> anonymized" where
  "applyPrivacyMeasures sha d =
     \<lparr>userHash = (case userIdentifiers d of
                    None \<Rightarrow> None
                  | Some u \<Rightarrow> if u = [] then None else Some (sha u)),
      region = map_option generalizeLocation (location d),
      afeatures = map_option processFeatures (features d)\<rparr>"

text \<open>
  \<open>processData\<close> throws inside its own \<^verbatim>\<open>try\<close> when consent is missing and its
  \<^verbatim>\<open>catch\<close> turns the exception into a failure reply; it never raises to its caller and
  never writes the settings.
\<close>

definition processData :: "(string \<Rightarrow> string) \<Rightarrow> privacy_state \<Rightarrow> content \<Rightarrow> anonymized reply" where
  "processData sha st d =
     (if \<not> truthy (get_prop (privacySettings st) ''consentStatus'')
      then Failure (message (Error ''User consent not provided''))
      else Success (applyPrivacyMeasures sha d))"

text \<open>
  \<open>updateSettings\<close> spreads the stored settings and then the argument into a new object:
  every own property of the argument overrides, every other key is kept.
\<close>

definition updateSettings ::
  "privacy_state \<Rightarrow> (string \<rightharpoonup> jsval) \<Rightarrow> (string \<rightharpoonup> jsval) reply \<times> privacy_state" where
  "updateSettings st settings =
     (let merged = privacySettings st ++ settings
      in (Success merged, st\<lparr>privacySettings := merged\<rparr>))"

definition getSettings :: "privacy_state \<Rightarrow> (string \<rightharpoonup> jsval) reply" where
  "getSettings st = Success (privacySettings st)"

section \<open>Model manager (mlModelManager.js)\<close>

subsection \<open>Semantic version strings\<close>

text \<open>
  A version is stored as a string.  \<open>incrementVersion\<close> splits it at the dots, converts each
  piece with \<^verbatim>\<open>Number\<close>, takes the first three pieces by destructuring and prints them back
  with the patch increased.  \<^verbatim>\<open>Number\<close> is modelled on strings of decimal digits and on the
  empty string (which converts to 0); every other string is read as NaN here, so signs,
  white space, exponents and hexadecimal literals are outside the model.  Numbers are
  naturals: the precision limit of doubles at \<open>2^53\<close> and the exponent notation JavaScript
  prints from \<open>10^21\<close> on are not modelled.
\<close>

datatype vcomp = VUndefined | VNaN | VNum nat

definition digit_char :: "nat \<Rightarrow> char" where
  "digit_char d = ''0123456789'' ! d"

definition is_digit :: "char \<Rightarrow> bool" where
  "is_digit c = (c \<in> set ''0123456789'')"

definition digit_val :: "char \<Rightarrow> nat" where
  "digit_val c = length (takeWhile (\<lambda>d. d \<noteq> c) ''0123456789'')"

fun show_nat :: "nat \<Rightarrow> string" where
  "show_nat n = (if n < 10 then [digit_char n] else show_nat (n div 10) @ [digit_char (n mod 10)])"

definition Number_dec :: "string \<Rightarrow> vcomp" where
  "Number_dec s =
     (if list_all is_digit s then VNum (fold (\<lambda>c acc. 10 * acc + digit_val c) s 0) else VNaN)"

fun split_acc :: "string \<Rightarrow> string \<Rightarrow> string list" where
  "split_acc cur [] = [cur]"
| "split_acc cur (c # cs) =
     (if c = CHR ''.'' then cur # split_acc [] cs else split_acc (cur @ [c]) cs)"

definition split_dot :: "string \<Rightarrow> string list" where
  "split_dot s = split_acc [] s"

definition element :: "vcomp list \<Rightarrow> nat \<Rightarrow> vcomp" where
  "element xs i = (if i < length xs then xs ! i else VUndefined)"

fun show_vcomp :: "vcomp \<Rightarrow> string" where
  "show_vcomp VUndefined = ''undefined''"
| "show_vcomp VNaN = ''NaN''"
| "show_vcomp (VNum n) = show_nat n"

fun plus_one :: "vcomp \<Rightarrow> vcomp" where
  "plus_one (VNum n) = VNum (n + 1)"
| "plus_one _ = VNaN"

definition incrementVersion :: "string \<Rightarrow> string" where
  "incrementVersion version =
     (let parts = map Number_dec (split_dot version);
          major = element parts 0;
          minor = element parts 1;
          patch = element parts 2
      in show_vcomp major @ ''.'' @ show_vcomp minor @ ''.'' @ show_vcomp (plus_one patch))"

text \<open>The triple a version string denotes, read the way \<open>incrementVersion\<close> reads it.\<close>

definition versionTriple :: "string \<Rightarrow> (nat \<times> nat \<times> nat) option" where
  "versionTriple version =
     (let parts = map Number_dec (split_dot version)
      in case (element parts 0, element parts 1, element parts 2) of
           (VNum a, VNum b, VNum c) \<Rightarrow> Some (a, b, c)
         | _ \<Rightarrow> None)"

definition semver :: "nat \<Rightarrow> nat \<Rightarrow> nat \<Rightarrow> string" where
  "semver a b c = show_nat a @ ''.'' @ show_nat b @ ''.'' @ show_nat c"

text \<open>The lexicographic order on (major, minor, patch).\<close>

fun version_less :: "nat \<times> nat \<times> nat \<Rightarrow> nat \<times> nat \<times> nat \<Rightarrow> bool" where
  "version_less (a, b, c) (a', b', c') = (a < a' \<or> (a = a' \<and> (b < b' \<or> (b = b' \<and> c < c'))))"

subsection \<open>The registry\<close>

record parameters =
  ptype :: "string option"
  pfeatures :: "string list option"

record capabilities =
  textProcessing :: bool
  imageAnalysis :: bool
  audioProcessing :: bool

record fallbackData =
  fb_id :: string
  fb_name :: string
  fb_version :: string
  fb_type :: string
  fb_features :: "string list"
  fallbackMode :: bool
  fb_capabilities :: capabilities

text \<open>Model data is either the JSON body the server sent or the local stand-in.\<close>

datatype modelData = Fetched string | Fallback fallbackData

record modelConfig =
  cfg_parameters :: "parameters option"
  cfg_data :: "modelData option"

record metadata =
  version :: string
  lastUpdated :: string
  md_parameters :: "parameters option"
  performance :: "(string \<times> (string \<times> jsval) list) list"

record manager_state =
  currentModelVersion :: string
  models :: "string \<rightharpoonup> modelConfig"
  modelMetadata :: "string \<rightharpoonup> metadata"

definition MLModelManager_constructor :: manager_state where
  "MLModelManager_constructor =
     \<lparr>currentModelVersion = ''1.0.0'', models = Map.empty, modelMetadata = Map.empty\<rparr>"

text \<open>
  What the remote fetch can do: the request is rejected, or a response arrives with its
  \<open>ok\<close> flag, its status text and the outcome of reading its body as JSON.
\<close>

datatype fetch_outcome = Rejected js_error | Response bool string "js_error + string"

text \<open>\<^verbatim>\<open>modelConfig.parameters?.type || 'default'\<close> and \<^verbatim>\<open>modelConfig.parameters?.features || []\<close>.\<close>

definition getFallbackModelData :: "manager_state \<Rightarrow> string \<Rightarrow> modelConfig \<Rightarrow> fallbackData" where
  "getFallbackModelData st modelId cfg =
     \<lparr>fb_id = modelId,
      fb_name = ''Fallback '' @ modelId,
      fb_version = currentModelVersion st,
      fb_type = (case cfg_parameters cfg of
                   None \<Rightarrow> ''default''
                 | Some ps \<Rightarrow> (case ptype ps of
                                None \<Rightarrow> ''default''
                              | Some t \<Rightarrow> if t = [] then ''default'' else t)),
      fb_features = (case cfg_parameters cfg of
                       None \<Rightarrow> []
                     | Some ps \<Rightarrow> (case pfeatures ps of None \<Rightarrow> [] | Some fs \<Rightarrow> fs)),
      fallbackMode = True,
      fb_capabilities =
        \<lparr>textProcessing = True, imageAnalysis = False, audioProcessing = False\<rparr>\<rparr>"

text \<open>The inner \<^verbatim>\<open>try\<close> of \<open>initializeModel\<close>: every failure of the fetch ends in the fallback.\<close>

definition obtainModelData ::
  "fetch_outcome \<Rightarrow> manager_state \<Rightarrow> string \<Rightarrow> modelConfig \<Rightarrow> modelData" where
  "obtainModelData response st modelId cfg =
     (case response of
        Rejected e \<Rightarrow> Fallback (getFallbackModelData st modelId cfg)
      | Response ok statusText body \<Rightarrow>
          if \<not> ok then Fallback (getFallbackModelData st modelId cfg)
          else (case body of
                  Inl e \<Rightarrow> Fallback (getFallbackModelData st modelId cfg)
                | Inr json \<Rightarrow> Fetched json))"

text \<open>
  \<open>initializeModel\<close>; \<open>now\<close> is the time stamp \<^verbatim>\<open>new Date().toISOString()\<close> gives.  The
  configuration is an object, so no statement of the body raises and the outer
  \<^verbatim>\<open>catch\<close> is never entered.
\<close>

definition initializeModel ::
  "fetch_outcome \<Rightarrow> string \<Rightarrow> manager_state \<Rightarrow> string \<Rightarrow> modelConfig \<Rightarrow> string reply \<times> manager_state" where
  "initializeModel response now st modelId cfg =
     (let md = \<lparr>version = currentModelVersion st,
                lastUpdated = now,
                md_parameters = cfg_parameters cfg,
                performance = []\<rparr>;
          modelData = obtainModelData response st modelId cfg
      in (Success modelId,
          st\<lparr>modelMetadata := (modelMetadata st)(modelId \<mapsto> md),
             models := (models st)(modelId \<mapsto> cfg\<lparr>cfg_data := Some modelData\<rparr>)\<rparr>))"

text \<open>
  \<open>updateModel\<close>.  A model without metadata cannot arise from the manager's own
  methods; reading \<^verbatim>\<open>metadata.version\<close> would then raise a TypeError, which the
  \<^verbatim>\<open>catch\<close> reports.
\<close>

definition updateModel ::
  "string \<Rightarrow> manager_state \<Rightarrow> string \<Rightarrow> modelConfig \<Rightarrow> string reply \<times> manager_state" where
  "updateModel now st modelId newModelConfig =
     (if models st modelId = None then (Failure (message (Error ''Model not found'')), st)
      else case modelMetadata st modelId of
             None \<Rightarrow>
               (Failure (message (TypeError ''Cannot read properties of undefined'')), st)
           | Some md \<Rightarrow>
               (let md' = md\<lparr>version := incrementVersion (version md),
                              lastUpdated := now,
                              md_parameters := cfg_parameters newModelConfig\<rparr>
                in (Success (version md'),
                    st\<lparr>models := (models st)(modelId \<mapsto> newModelConfig),
                       modelMetadata := (modelMetadata st)(modelId \<mapsto> md')\<rparr>)))"

definition trackPerformance ::
  "string \<Rightarrow> manager_state \<Rightarrow> string \<Rightarrow> (string \<times> jsval) list \<Rightarrow> unit reply \<times> manager_state" where
  "trackPerformance now st modelId metrics =
     (case modelMetadata st modelId of
        None \<Rightarrow> (Failure (message (TypeError ''Cannot read properties of undefined'')), st)
      | Some md \<Rightarrow>
          (Success (),
           st\<lparr>modelMetadata :=
                (modelMetadata st)(modelId \<mapsto>
                   md\<lparr>performance := AList.update now metrics (performance md)\<rparr>)\<rparr>))"

text \<open>The states the manager can be in: the constructor's, and any reached by its methods.\<close>

inductive reachable :: "manager_state \<Rightarrow> bool" where
  reach_new: "reachable MLModelManager_constructor"
| reach_init: "reachable st \<Longrightarrow> reachable (snd (initializeModel response now st modelId cfg))"
| reach_update: "reachable st \<Longrightarrow> reachable (snd (updateModel now st modelId cfg))"
| reach_track: "reachable st \<Longrightarrow> reachable (snd (trackPerformance now st modelId metrics))"

section \<open>Pattern scanner and coordinator (biasDetectionSystem.js)\<close>

subsection \<open>The regular expressions\<close>

text \<open>
  Every pattern of \<open>getBiasPatterns\<close> is a regular expression literal of the shape
  \<^verbatim>\<open>/\b(A|B) rest\b/i\<close>: a word boundary, an alternation, a literal rest and a word
  boundary, matched without regard to case and without the \<^verbatim>\<open>g\<close> or \<^verbatim>\<open>y\<close> flag.  A
  pattern is held as its alternatives, its rest and its weight.  A text is a list of
  code units; of these only the ASCII letters have a different upper-case form that
  matters for the letters of the patterns.
\<close>

record biasPattern =
  alternatives :: "string list"
  suffix :: string
  weight :: real

definition is_word_char :: "char \<Rightarrow> bool" where
  "is_word_char c =
     (c \<in> set ''abcdefghijklmnopqrstuvwxyzABCDEFGHIJKLMNOPQRSTUVWXYZ0123456789_'')"

definition to_upper :: "char \<Rightarrow> char" where
  "to_upper c =
     (case map_of (zip ''abcdefghijklmnopqrstuvwxyz'' ''ABCDEFGHIJKLMNOPQRSTUVWXYZ'') c of
        None \<Rightarrow> c
      | Some u \<Rightarrow> u)"

fun ci_prefix :: "string \<Rightarrow> string \<Rightarrow> bool" where
  "ci_prefix [] s = True"
| "ci_prefix (p # ps) [] = False"
| "ci_prefix (p # ps) (c # cs) = (to_upper p = to_upper c \<and> ci_prefix ps cs)"

definition word_at :: "string \<Rightarrow> nat \<Rightarrow> bool" where
  "word_at s i = (i < length s \<and> is_word_char (s ! i))"

text \<open>The assertion \<^verbatim>\<open>\b\<close> at position \<open>i\<close>.\<close>

definition boundary :: "string \<Rightarrow> nat \<Rightarrow> bool" where
  "boundary s i = ((0 < i \<and> word_at s (i - 1)) \<noteq> word_at s i)"

text \<open>
  A match that starts at position \<open>i\<close>: the alternatives are tried in order, and an
  alternative is given up when the rest or the closing boundary fails after it.
\<close>

definition match_at :: "biasPattern \<Rightarrow> string \<Rightarrow> nat \<Rightarrow> string option" where
  "match_at p s i =
     (if boundary s i
      then map_option (\<lambda>a. take (length (a @ suffix p)) (drop i s))
             (List.find (\<lambda>a. ci_prefix (a @ suffix p) (drop i s) \<and>
                               boundary s (i + length (a @ suffix p)))
                        (alternatives p))
      else None)"

text \<open>
  \<^verbatim>\<open>pattern.exec(text)\<close> for a pattern without the \<^verbatim>\<open>g\<close> flag: the search starts at
  position 0 on every call, and the result is the leftmost match with its index.  The
  pattern object keeps no position between calls.
\<close>

definition regex_exec :: "biasPattern \<Rightarrow> string \<Rightarrow> (string \<times> nat) option" where
  "regex_exec p s =
     (case List.find (\<lambda>i. match_at p s i \<noteq> None) [0..<Suc (length s)] of
        None \<Rightarrow> None
      | Some i \<Rightarrow> map_option (\<lambda>m. (m, i)) (match_at p s i))"

subsection \<open>Scanning\<close>

record biasInstance =
  inst_text :: string
  index :: nat
  inst_context :: string

record categoryScore =
  score :: real
  instances :: "biasInstance list"
  severity :: string

definition biasCategories :: "string list" where
  "biasCategories =
     [''gender'', ''race'', ''age'', ''disability'', ''socioeconomic'', ''cultural'',
      ''language'', ''religion'', ''nationality'']"

definition getBiasPatterns :: "string \<Rightarrow> biasPattern list" where
  "getBiasPatterns category =
     (if category = ''gender'' then
        [\<lparr>alternatives = [''he'', ''she''], suffix = '' is assumed'', weight = 0.8\<rparr>,
         \<lparr>alternatives = [''male'', ''female''], suffix = '' only'', weight = 0.9\<rparr>]
      else if category = ''disability'' then
        [\<lparr>alternatives = [''normal'', ''abnormal''], suffix = '' person'', weight = 0.9\<rparr>,
         \<lparr>alternatives = [''suffering'', ''victim''], suffix = '' of'', weight = 0.7\<rparr>]
      else [])"

text \<open>\<^verbatim>\<open>text.slice(start, end)\<close> with \<open>0 \<le> start\<close> and \<open>end \<le> text.length\<close>.\<close>

definition slice :: "string \<Rightarrow> nat \<Rightarrow> nat \<Rightarrow> string" where
  "slice s start stop = take (stop - start) (drop start s)"

definition getMatchContext :: "string \<Rightarrow> nat \<Rightarrow> string" where
  "getMatchContext s i = slice s (i - 50) (min (length s) (i + 50))"

text \<open>
  The \<^verbatim>\<open>while\<close> loop of \<open>findPatternMatches\<close>.  Its condition calls \<open>exec\<close> again on the
  same text; the loop ends when \<open>exec\<close> returns null.  The loop may not end, so it is a
  partial function: \<open>None\<close> means that it does not return.
\<close>

partial_function (option) findPatternMatches_loop ::
  "biasPattern \<Rightarrow> string \<Rightarrow> biasInstance list \<Rightarrow> biasInstance list option" where
  "findPatternMatches_loop p s matches =
     (case regex_exec p s of
        None \<Rightarrow> Some matches
      | Some (m, i) \<Rightarrow>
          findPatternMatches_loop p s
            (matches @ [\<lparr>inst_text = m, index = i, inst_context = getMatchContext s i\<rparr>]))"

text \<open>
  The argument is the \<^verbatim>\<open>text\<close> property of the content object (\<open>None\<close> when the object
  has none); \<^verbatim>\<open>content.text || ''\<close> reads an absent or empty text as the empty string.
\<close>

definition findPatternMatches :: "string option \<Rightarrow> biasPattern \<Rightarrow> biasInstance list option" where
  "findPatternMatches txt p =
     findPatternMatches_loop p (case txt of None \<Rightarrow> [] | Some s \<Rightarrow> s) []"

definition calculateSeverity :: "real \<Rightarrow> string" where
  "calculateSeverity sc =
     (if sc \<ge> 0.9 then ''critical''
      else if sc \<ge> 0.7 then ''high''
      else if sc \<ge> 0.4 then ''medium''
      else ''low'')"

text \<open>The \<^verbatim>\<open>for\<close> loop of \<open>analyzeCategoryBias\<close> over the patterns of the category.\<close>

fun analyzeCategoryBias_loop ::
  "string option \<Rightarrow> biasPattern list \<Rightarrow> real \<Rightarrow> biasInstance list \<Rightarrow> (real \<times> biasInstance list) option" where
  "analyzeCategoryBias_loop txt [] sc insts = Some (sc, insts)"
| "analyzeCategoryBias_loop txt (p # ps) sc insts =
     (case findPatternMatches txt p of
        None \<Rightarrow> None
      | Some matches \<Rightarrow>
          if length matches > 0
          then analyzeCategoryBias_loop txt ps
                 (sc + real (length matches) * weight p) (insts @ matches)
          else analyzeCategoryBias_loop txt ps sc insts)"

definition analyzeCategoryBias :: "string option \<Rightarrow> string \<Rightarrow> categoryScore option" where
  "analyzeCategoryBias txt category =
     map_option (\<lambda>(sc, insts). \<lparr>score = sc, instances = insts, severity = calculateSeverity sc\<rparr>)
       (analyzeCategoryBias_loop txt (getBiasPatterns category) 0 [])"

fun detectBias_loop ::
  "string option \<Rightarrow> string list \<Rightarrow> (string \<times> categoryScore) list \<Rightarrow> (string \<times> categoryScore) list option" where
  "detectBias_loop txt [] detectedBias = Some detectedBias"
| "detectBias_loop txt (category # cs) detectedBias =
     (case analyzeCategoryBias txt category of
        None \<Rightarrow> None
      | Some categoryScore \<Rightarrow>
          if score categoryScore > 0
          then detectBias_loop txt cs (AList.update category categoryScore detectedBias)
          else detectBias_loop txt cs detectedBias)"

definition detectBias :: "string option \<Rightarrow> (string \<times> categoryScore) list option" where
  "detectBias txt = detectBias_loop txt biasCategories []"

subsection \<open>The coordinator\<close>

text \<open>
  The methods the class \<open>BiasDetectionSystem\<close> defines.  A call \<^verbatim>\<open>this.m(...)\<close> of any
  other name finds \<^verbatim>\<open>undefined\<close> and raises a TypeError.
\<close>

definition BiasDetectionSystem_methods :: "string list" where
  "BiasDetectionSystem_methods =
     [''constructor'', ''initialize'', ''analyzeContent'', ''detectBias'',
      ''analyzeCategoryBias'', ''getBiasPatterns'', ''findPatternMatches'',
      ''getMatchContext'', ''calculateSeverity'', ''generateMitigationStrategies'',
      ''getCategoryRecommendations'', ''getLanguageAlternatives'', ''findAlternatives'',
      ''trackAnalysisMetrics'', ''countTotalInstances'', ''calculateSeverityDistribution'']"

definition call_method :: "string \<Rightarrow> js_error + unit" where
  "call_method name =
     (if name \<in> set BiasDetectionSystem_methods then Inr ()
      else Inl (TypeError (''this.'' @ name @ '' is not a function'')))"

text \<open>
  The report of a successful analysis.  Only \<open>biasDetected\<close> is computed by code of the
  class; the other fields would be the values of methods the class does not define or of
  other modules, and are left out.
\<close>

record report =
  biasDetected :: "(string \<times> categoryScore) list"

text \<open>
  \<open>analyzeContent\<close>, statement by statement.  \<open>processData\<close> never raises; the
  destructuring reads its \<^verbatim>\<open>data\<close> property, which a failure reply does not have.  The
  privacy-processed object has no \<^verbatim>\<open>text\<close> property.  Whatever is raised inside the
  \<^verbatim>\<open>try\<close> becomes \<^verbatim>\<open>{success: false, error: error.message}\<close>.
\<close>

definition analyzeContent ::
  "(string \<Rightarrow> string) \<Rightarrow> privacy_state \<Rightarrow> content \<Rightarrow> report reply option" where
  "analyzeContent sha pst c =
     (let processedContent =
            (case processData sha pst c of Success d \<Rightarrow> Some d | Failure e \<Rightarrow> None)
      in case call_method ''extractContext'' of
           Inl error \<Rightarrow> Some (Failure (message error))
         | Inr _ \<Rightarrow>
            (case processedContent of
               None \<Rightarrow>
                 Some (Failure (message (TypeError ''Cannot read properties of undefined'')))
             | Some d \<Rightarrow>
                (case detectBias None of
                   None \<Rightarrow> None
                 | Some results \<Rightarrow>
                    (case call_method ''getUserPreferences'' of
                       Inl error \<Rightarrow> Some (Failure (message error))
                     | Inr _ \<Rightarrow>
                        (case call_method ''updateAdaptiveThresholds'' of
                           Inl error \<Rightarrow> Some (Failure (message error))
                         | Inr _ \<Rightarrow>
                            (case call_method ''calculateConfidence'' of
                               Inl error \<Rightarrow> Some (Failure (message error))
                             | Inr _ \<Rightarrow>
                                (case call_method ''getPerformanceMetrics'' of
                                   Inl error \<Rightarrow> Some (Failure (message error))
                                 | Inr _ \<Rightarrow> Some (Success \<lparr>biasDetected = results\<rparr>))))))))"

section \<open>Statistical analyzer (the module imported as ./biasDetection)\<close>

text \<open>
  A batch of predictions is the list of numbers a one-dimensional tensor holds; a tensor
  can hold NaN and the infinities.  The metadata object maps an attribute name to the list
  of that attribute's values, aligned by index with the batch; it is held as an
  association list.  An attribute value is used as a property key, so it is held as the
  string it converts to.
\<close>

definition CONFIDENCE_THRESHOLD :: real where
  "CONFIDENCE_THRESHOLD = 0.8"

definition PROTECTED_ATTRIBUTES :: "string list" where
  "PROTECTED_ATTRIBUTES = [''gender'', ''age'', ''ethnicity'', ''disability'', ''language'']"

subsection \<open>Counter objects\<close>

text \<open>
  The counters of the module are properties of objects created by \<^verbatim>\<open>{}\<close>.  Such an object
  has no property of its own at first, but it inherits the properties of
  \<^verbatim>\<open>Object.prototype\<close>: reading one of these names on it gives a function (for
  \<^verbatim>\<open>__proto__\<close> the prototype object), not \<^verbatim>\<open>undefined\<close>.  What a read can give is a
  \<open>cell\<close>: \<^verbatim>\<open>undefined\<close>, an inherited function or object, a count, NaN, or a string that
  is not a numeral.  An object is held as the association list of its own properties, in
  the order of their creation.
\<close>

datatype cell = CUndefined | CObject | CNum nat | CNaN | CText

definition Object_prototype_properties :: "string list" where
  "Object_prototype_properties =
     [''constructor'', ''__defineGetter__'', ''__defineSetter__'', ''hasOwnProperty'',
      ''__lookupGetter__'', ''__lookupSetter__'', ''isPrototypeOf'', ''propertyIsEnumerable'',
      ''toString'', ''valueOf'', ''__proto__'', ''toLocaleString'']"

definition read_cell :: "(string \<times> cell) list \<Rightarrow> string \<Rightarrow> cell" where
  "read_cell obj k =
     (case map_of obj k of
        Some c \<Rightarrow> c
      | None \<Rightarrow> if k \<in> set Object_prototype_properties then CObject else CUndefined)"

text \<open>
  An assignment creates or overwrites an own property, except under the name
  \<^verbatim>\<open>__proto__\<close>, whose inherited setter ignores a value that is not an object.
\<close>

definition write_cell :: "(string \<times> cell) list \<Rightarrow> string \<Rightarrow> cell \<Rightarrow> (string \<times> cell) list" where
  "write_cell obj k c = (if k = ''__proto__'' then obj else AList.update k c obj)"

text \<open>\<^verbatim>\<open>!x\<close> holds for \<^verbatim>\<open>undefined\<close>, 0 and NaN.\<close>

fun falsy :: "cell \<Rightarrow> bool" where
  "falsy CUndefined = True"
| "falsy (CNum n) = (n = 0)"
| "falsy CNaN = True"
| "falsy CObject = False"
| "falsy CText = False"

text \<open>\<^verbatim>\<open>x++\<close> stores the number of \<open>x\<close> plus 1; whatever is not a count converts to NaN.\<close>

fun increment :: "cell \<Rightarrow> cell" where
  "increment (CNum n) = CNum (n + 1)"
| "increment _ = CNaN"

text \<open>
  \<^verbatim>\<open>(x || 0) + 1\<close>: a falsy \<open>x\<close> gives 1; a function, an object or a string is truthy,
  and adding 1 to it concatenates strings.
\<close>

fun or_zero_plus_one :: "cell \<Rightarrow> cell" where
  "or_zero_plus_one (CNum n) = CNum (n + 1)"
| "or_zero_plus_one CUndefined = CNum 1"
| "or_zero_plus_one CNaN = CNum 1"
| "or_zero_plus_one CObject = CText"
| "or_zero_plus_one CText = CText"

text \<open>The number a cell converts to as an operand of a division.\<close>

fun cell_number :: "cell \<Rightarrow> jsnum" where
  "cell_number (CNum n) = Num (real n)"
| "cell_number _ = NaN"

subsection \<open>Disparate impact\<close>

text \<open>
  \<^verbatim>\<open>predArray[index] > CONFIDENCE_THRESHOLD\<close>: an index beyond the batch reads
  \<^verbatim>\<open>undefined\<close>, and the comparison is false.
\<close>

definition favorable :: "jsnum list \<Rightarrow> nat \<Rightarrow> bool" where
  "favorable predArray i =
     (i < length predArray \<and> js_greater (predArray ! i) (Num CONFIDENCE_THRESHOLD))"

text \<open>
  One call of the \<^verbatim>\<open>forEach\<close> callback of \<open>calculateDisparateImpact\<close>.  The test
  \<^verbatim>\<open>!favorableOutcomes[value]\<close> holds for a group not seen before and also for a group
  whose count of favorable outcomes is still 0; in both cases both counters of the group
  are set to 0.  It does not hold for a value that names an inherited property.
\<close>

definition countOutcome ::
  "jsnum list \<Rightarrow> (string \<times> cell) list \<times> (string \<times> cell) list \<Rightarrow> string \<times> nat \<Rightarrow>
     (string \<times> cell) list \<times> (string \<times> cell) list" where
  "countOutcome predArray acc item =
     (let favorableOutcomes = fst acc; groupCounts = snd acc;
          v = fst item; i = snd item;
          reset = falsy (read_cell favorableOutcomes v);
          favorableOutcomes1 =
            (if reset then write_cell favorableOutcomes v (CNum 0) else favorableOutcomes);
          groupCounts1 = (if reset then write_cell groupCounts v (CNum 0) else groupCounts);
          favorableOutcomes2 =
            (if favorable predArray i
             then write_cell favorableOutcomes1 v (increment (read_cell favorableOutcomes1 v))
             else favorableOutcomes1);
          groupCounts2 = write_cell groupCounts1 v (increment (read_cell groupCounts1 v))
      in (favorableOutcomes2, groupCounts2))"

definition countOutcomes ::
  "jsnum list \<Rightarrow> string list \<Rightarrow> (string \<times> cell) list \<times> (string \<times> cell) list" where
  "countOutcomes predArray attributeValues =
     foldl (countOutcome predArray) ([], []) (zip attributeValues [0..<length attributeValues])"

text \<open>
  For the proofs: the number of favorable items of a group among the items the callback
  has processed.
\<close>

definition favorable_count :: "jsnum list \<Rightarrow> (string \<times> nat) list \<Rightarrow> string \<Rightarrow> nat" where
  "favorable_count ps items g = length (filter (\<lambda>it. fst it = g \<and> favorable ps (snd it)) items)"

text \<open>
  The ratios are taken over \<^verbatim>\<open>Object.keys(favorableOutcomes)\<close>, the own properties; their
  order does not matter to the minimum and the maximum.
\<close>

definition calculateDisparateImpact :: "jsnum list \<Rightarrow> string list \<Rightarrow> jsnum" where
  "calculateDisparateImpact predArray attributeValues =
     (let favorableOutcomes = fst (countOutcomes predArray attributeValues);
          groupCounts = snd (countOutcomes predArray attributeValues);
          ratios = map (\<lambda>group. js_divide (cell_number (read_cell favorableOutcomes group))
                                          (cell_number (read_cell groupCounts group)))
                     (map fst favorableOutcomes)
      in js_divide (Math_min ratios) (Math_max ratios))"

subsection \<open>Systematic bias\<close>

text \<open>
  \<open>calculateDistribution\<close>: \<^verbatim>\<open>distribution[value] = (distribution[value] || 0) + 1\<close> for
  every value, then every own property divided by the length of the list.
\<close>

definition calculateDistribution :: "string list \<Rightarrow> (string \<times> jsnum) list" where
  "calculateDistribution vals =
     (let distribution = foldl (\<lambda>d v. write_cell d v (or_zero_plus_one (read_cell d v))) [] vals
      in map (\<lambda>(k, c). (k, js_divide (cell_number c) (Num (real (length vals))))) distribution)"

definition checkRepresentation :: "(string \<times> string list) list \<Rightarrow> (string \<times> jsnum) list" where
  "checkRepresentation metadata =
     concat (map (\<lambda>attribute.
                    case map_of metadata attribute of
                      None \<Rightarrow> []
                    | Some vals \<Rightarrow>
                        (let minRepresentation = Math_min (map snd (calculateDistribution vals))
                         in if js_less minRepresentation (Num 0.1)
                            then [(attribute, minRepresentation)] else []))
                 PROTECTED_ATTRIBUTES)"

text \<open>
  An argument of \<open>calculateSkewness\<close> is a number, as its documentation says, or a tensor
  object, as its caller passes.  In an arithmetic operation a tensor converts to a number
  through its string form, which is not a numeral: it converts to NaN.
\<close>

datatype number_or_tensor = Number jsnum | Tensor

fun to_number :: "number_or_tensor \<Rightarrow> jsnum" where
  "to_number (Number x) = x"
| "to_number Tensor = NaN"

text \<open>
  \<open>calculateSkewness\<close>: the \<^verbatim>\<open>reduce\<close> adds \<^verbatim>\<open>Math.pow(val - mean, 3)\<close> from 0, the sum is
  divided by the length, and the quotient by \<^verbatim>\<open>Math.pow(std, 3)\<close>.
\<close>

definition calculateSkewness :: "jsnum list \<Rightarrow> number_or_tensor \<Rightarrow> number_or_tensor \<Rightarrow> jsnum" where
  "calculateSkewness vals mean std =
     (let n = length vals;
          m3 = js_divide
                 (foldl (\<lambda>acc val. js_add acc (js_cube (js_sub val (to_number mean)))) (Num 0) vals)
                 (Num (real n))
      in js_divide m3 (js_cube (to_number std)))"

text \<open>
  \<open>analyzePredictionDistribution\<close> passes \<^verbatim>\<open>tf.mean(predictions)\<close> and
  \<^verbatim>\<open>tf.moments(predictions).variance.sqrt()\<close> to \<open>calculateSkewness\<close>; both are tensor
  objects, whatever scalar they hold.  Of the object it returns, the caller reads the
  skewness only.
\<close>

definition analyzePredictionDistribution :: "jsnum list \<Rightarrow> jsnum" where
  "analyzePredictionDistribution predArray = calculateSkewness predArray Tensor Tensor"

record biasFinding =
  finding_type :: string
  details :: string
  affected :: "(string \<times> jsnum) list option"

record systematicBias =
  patterns :: "biasFinding list"
  sb_severity :: string

definition detectSystematicBias :: "jsnum list \<Rightarrow> (string \<times> string list) list \<Rightarrow> systematicBias" where
  "detectSystematicBias predArray metadata =
     (let skewness = analyzePredictionDistribution predArray;
          sb1 = (if js_greater skewness (Num 0.5)
                 then \<lparr>patterns =
                         [\<lparr>finding_type = ''skewed_predictions'',
                           details = ''Predictions show significant skew towards certain outcomes'',
                           affected = None\<rparr>],
                       sb_severity = ''medium''\<rparr>
                 else \<lparr>patterns = [], sb_severity = ''low''\<rparr>);
          representationIssues = checkRepresentation metadata
      in if length representationIssues > 0
         then \<lparr>patterns = patterns sb1 @
                 [\<lparr>finding_type = ''underrepresentation'',
                   details = ''Some groups are underrepresented in the analysis'',
                   affected = Some representationIssues\<rparr>],
               sb_severity = ''high''\<rparr>
         else sb1)"

subsection \<open>The moments of a batch in the words of the specification\<close>

text \<open>
  The population mean and standard deviation of a batch of finite numbers.  These two
  definitions are not taken from the code; they give the numbers the documentation of
  \<open>calculateSkewness\<close> expects as its second and third argument.
\<close>

definition population_mean :: "real list \<Rightarrow> real" where
  "population_mean vals = sum_list vals / real (length vals)"

definition population_std :: "real list \<Rightarrow> real" where
  "population_std vals =
     sqrt (sum_list (map (\<lambda>x. (x - population_mean vals) ^ 2) vals) / real (length vals))"

section \<open>Mitigation engine (biasMitigation.js)\<close>

record biasMetrics =
  disparateImpact :: "(string \<times> jsnum) list"
  systematicBias :: systematicBias

definition REWEIGHTING :: string where
  "REWEIGHTING = ''reweighting''"

definition THRESHOLD_ADJUSTMENT :: string where
  "THRESHOLD_ADJUSTMENT = ''threshold_adjustment''"

definition ENSEMBLE :: string where
  "ENSEMBLE = ''ensemble''"

text \<open>
  The identifier \<^verbatim>\<open>MITIGATION_THRESHOLD\<close> is read by \<open>needsMitigation\<close> and by
  \<open>calculateOptimalThreshold\<close>.  The functions below take its binding as a parameter:
  \<open>None\<close> when no binding exists, in which case evaluating the identifier raises a
  ReferenceError.  The module declares \<^verbatim>\<open>CONFIG\<close> and \<^verbatim>\<open>MITIGATION_STRATEGIES\<close> and
  imports \<^verbatim>\<open>tf\<close> and \<^verbatim>\<open>detectBias\<close>; it neither declares nor imports
  \<^verbatim>\<open>MITIGATION_THRESHOLD\<close>, and no file of the repository defines it.
\<close>

definition MITIGATION_THRESHOLD :: "real option" where
  "MITIGATION_THRESHOLD = None"

text \<open>
  \<^verbatim>\<open>scores.some(score => score < MITIGATION_THRESHOLD)\<close>: the callback runs on the
  elements in order and is not run at all on an empty list.
\<close>

fun some_below :: "real option \<Rightarrow> jsnum list \<Rightarrow> js_error + bool" where
  "some_below thr [] = Inr False"
| "some_below thr (sc # scs) =
     (case thr of
        None \<Rightarrow> Inl (ReferenceError ''MITIGATION_THRESHOLD is not defined'')
      | Some t \<Rightarrow> if js_less sc (Num t) then Inr True else some_below thr scs)"

definition needsMitigation :: "real option \<Rightarrow> biasMetrics \<Rightarrow> js_error + bool" where
  "needsMitigation thr m =
     (case some_below thr (map snd (disparateImpact m)) of
        Inl e \<Rightarrow> Inl e
      | Inr hasSignificantDisparateImpact \<Rightarrow>
          Inr (hasSignificantDisparateImpact \<or> sb_severity (systematicBias m) \<noteq> ''low''))"

definition determineStrategies :: "biasMetrics \<Rightarrow> string list" where
  "determineStrategies m =
     (if list_ex (\<lambda>sc. js_less sc (Num 0.8)) (map snd (disparateImpact m)) then [REWEIGHTING] else []) @
     (if length (patterns (systematicBias m)) > 0 then [THRESHOLD_ADJUSTMENT] else []) @
     (if sb_severity (systematicBias m) = ''high'' then [ENSEMBLE] else [])"

definition calculateBalancingWeights :: "(string \<times> jsnum) list \<Rightarrow> (string \<times> jsnum) list" where
  "calculateBalancingWeights distribution =
     (let targetProportion = js_divide (Num 1) (Num (real (length distribution)))
      in map (\<lambda>(k, share). (k, js_divide targetProportion share)) distribution)"

definition applyReweighting :: "(string \<times> string list) list \<Rightarrow> (string \<times> (string \<times> jsnum) list) list" where
  "applyReweighting metadata =
     map (\<lambda>(attribute, vals). (attribute, calculateBalancingWeights (calculateDistribution vals)))
       metadata"

definition calculateOptimalThreshold :: "real option \<Rightarrow> jsnum \<Rightarrow> js_error + jsnum" where
  "calculateOptimalThreshold thr disparateImpactScore =
     (case thr of
        None \<Rightarrow> Inl (ReferenceError ''MITIGATION_THRESHOLD is not defined'')
      | Some t \<Rightarrow>
          if js_less disparateImpactScore (Num t)
          then (case disparateImpactScore of
                  Num x \<Rightarrow> Inr (Num (max 0.1 (min (0.5 * x) 0.9)))
                | _ \<Rightarrow> Inr (Num 0.1))
          else Inr (Num 0.5))"

fun adjustThresholds :: "real option \<Rightarrow> (string \<times> jsnum) list \<Rightarrow> js_error + (string \<times> jsnum) list" where
  "adjustThresholds thr [] = Inr []"
| "adjustThresholds thr ((attribute, sc) # rest) =
     (case calculateOptimalThreshold thr sc of
        Inl e \<Rightarrow> Inl e
      | Inr t \<Rightarrow> (case adjustThresholds thr rest of
                    Inl e \<Rightarrow> Inl e
                  | Inr ts \<Rightarrow> Inr ((attribute, t) # ts)))"

record 'm ensemble =
  ens_models :: "'m list"
  ens_weights :: "real list"
  combinationStrategy :: string

definition createEnsemble :: "'m \<Rightarrow> 'm ensemble" where
  "createEnsemble model =
     \<lparr>ens_models = [model], ens_weights = [1.0], combinationStrategy = ''weighted_average''\<rparr>"

record 'm adjustments =
  adj_weights :: "(string \<times> (string \<times> jsnum) list) list option"
  adj_thresholds :: "(string \<times> jsnum) list option"
  adj_ensemble :: "'m ensemble option"

text \<open>
  The result object; \<open>mit_performance\<close> is \<open>None\<close> while it is the empty object.  The
  fields \<^verbatim>\<open>intersectionalBias\<close> and \<^verbatim>\<open>contextualBias\<close> are never written and are left out.
\<close>

record ('m, 'p) mitigationResults =
  appliedStrategies :: "string list"
  adjustments :: "'m adjustments"
  mit_performance :: "'p option"

text \<open>The \<^verbatim>\<open>for\<close> loop over the strategies with its \<^verbatim>\<open>switch\<close>.\<close>

fun applyStrategies ::
  "real option \<Rightarrow> 'm \<Rightarrow> biasMetrics \<Rightarrow> (string \<times> string list) list \<Rightarrow> string list \<Rightarrow>
     ('m, 'p) mitigationResults \<Rightarrow> js_error + ('m, 'p) mitigationResults" where
  "applyStrategies thr model m metadata [] res = Inr res"
| "applyStrategies thr model m metadata (strategy # rest) res =
     (if strategy = REWEIGHTING then
        applyStrategies thr model m metadata rest
          (res\<lparr>adjustments := (adjustments res)\<lparr>adj_weights := Some (applyReweighting metadata)\<rparr>,
               appliedStrategies := appliedStrategies res @ [strategy]\<rparr>)
      else if strategy = THRESHOLD_ADJUSTMENT then
        (case adjustThresholds thr (disparateImpact m) of
           Inl e \<Rightarrow> Inl e
         | Inr ts \<Rightarrow>
             applyStrategies thr model m metadata rest
               (res\<lparr>adjustments := (adjustments res)\<lparr>adj_thresholds := Some ts\<rparr>,
                    appliedStrategies := appliedStrategies res @ [strategy]\<rparr>))
      else if strategy = ENSEMBLE then
        applyStrategies thr model m metadata rest
          (res\<lparr>adjustments := (adjustments res)\<lparr>adj_ensemble := Some (createEnsemble model)\<rparr>,
               appliedStrategies := appliedStrategies res @ [strategy]\<rparr>)
      else
        applyStrategies thr model m metadata rest
          (res\<lparr>appliedStrategies := appliedStrategies res @ [strategy]\<rparr>))"

text \<open>
  \<open>mitigateBias\<close>.  \<open>evaluation\<close> is the outcome of \<open>evaluateMitigation\<close>, which runs the
  model and the analyzer on \<^verbatim>\<open>metadata.input\<close>.  Every exception raised inside the
  \<^verbatim>\<open>try\<close> is caught and the function returns \<^verbatim>\<open>null\<close>, which is \<open>None\<close> here.
\<close>

definition mitigateBias ::
  "real option \<Rightarrow> js_error + 'p \<Rightarrow> 'm \<Rightarrow> biasMetrics \<Rightarrow> (string \<times> string list) list \<Rightarrow>
     ('m, 'p) mitigationResults option" where
  "mitigateBias thr evaluation model m metadata =
     (let mitigationResults =
            \<lparr>appliedStrategies = [],
             adjustments = \<lparr>adj_weights = None, adj_thresholds = None, adj_ensemble = None\<rparr>,
             mit_performance = None\<rparr>
      in case needsMitigation thr m of
           Inl error \<Rightarrow> None
         | Inr needed \<Rightarrow>
             if \<not> needed then Some mitigationResults
             else (case applyStrategies thr model m metadata (determineStrategies m) mitigationResults of
                     Inl error \<Rightarrow> None
                   | Inr res \<Rightarrow>
                       (case evaluation of
                          Inl error \<Rightarrow> None
                        | Inr perf \<Rightarrow> Some (res\<lparr>mit_performance := Some perf\<rparr>))))"

section \<open>Inputs used in the examples\<close>

text \<open>
  A fetch has failed when the request was rejected, when the response is not \<open>ok\<close>, or
  when its body cannot be read as JSON.
\<close>

definition fetch_failed :: "fetch_outcome \<Rightarrow> bool" where
  "fetch_failed response =
     (case response of
        Rejected e \<Rightarrow> True
      | Response ok statusText body \<Rightarrow> \<not> ok \<or> isl body)"

definition example_config :: modelConfig where
  "example_config =
     \<lparr>cfg_parameters = Some \<lparr>ptype = Some ''classifier'', pfeatures = None\<rparr>, cfg_data = None\<rparr>"

text \<open>
  A registry in which one model has been initialized through the fallback, updated once
  and tracked once.
\<close>

definition example_manager :: manager_state where
  "example_manager =
     snd (trackPerformance ''t2''
       (snd (updateModel ''t1''
          (snd (initializeModel (Rejected (TypeError ''Failed to fetch'')) ''t0''
                  MLModelManager_constructor ''bias-detection-v2'' example_config))
          ''bias-detection-v2'' example_config))
       ''bias-detection-v2'' [(''biasInstances'', JNum 0)])"

definition example_text :: string where
  "example_text = ''he is assumed to be the manager''"

text \<open>
  Disparate-impact ratios \<open>{A: 0.5, B: 0.9}\<close> with systematic-bias severity low and no
  systematic-bias pattern.
\<close>

definition example_metrics :: biasMetrics where
  "example_metrics =
     \<lparr>disparateImpact = [(''A'', Num 0.5), (''B'', Num 0.9)],
      systematicBias = \<lparr>patterns = [], sb_severity = ''low''\<rparr>\<rparr>"

text \<open>The privacy handler after \<^verbatim>\<open>updateSettings({consentStatus: true})\<close>.\<close>

definition consenting :: privacy_state where
  "consenting = snd (updateSettings PrivacyHandler_constructor [''consentStatus'' \<mapsto> JBool True])"

definition plain_content :: content where
  "plain_content =
     \<lparr>content_text = Some ''hello world'', userIdentifiers = None, location = None, features = None\<rparr>"

text \<open>A batch whose skewness, the third standardized moment, is 1.5.\<close>

definition skewed_values :: "real list" where
  "skewed_values = [0, 0, 0, 0, 1]"

definition skewed_batch :: "jsnum list" where
  "skewed_batch = map Num skewed_values"

section \<open>Privacy handler: properties\<close>

text \<open>
  Claim C10.  \<open>updateSettings\<close> merges its argument into the stored settings: the stored
  settings afterwards are the old ones overridden by the argument, every key absent from
  the argument keeps its old value, every key of the argument takes the argument's
  value, and the reply is a success carrying exactly the stored settings, the same reply
  \<open>getSettings\<close> gives afterwards.
\<close>

theorem updateSettings_merge:
  "fst (updateSettings st settings) = Success (privacySettings (snd (updateSettings st settings))) \<and>
   getSettings (snd (updateSettings st settings)) = fst (updateSettings st settings) \<and>
   privacySettings (snd (updateSettings st settings)) = privacySettings st ++ settings \<and>
   (\<forall>k. k \<notin> dom settings \<longrightarrow>
        privacySettings (snd (updateSettings st settings)) k = privacySettings st k) \<and>
   (\<forall>k. k \<in> dom settings \<longrightarrow>
        privacySettings (snd (updateSettings st settings)) k = settings k)"
  by (auto simp: updateSettings_def getSettings_def Let_def map_add_def split: option.splits)

theorem updateSettings_merge_witness:
  "''dataRetentionDays'' \<notin> dom [''consentStatus'' \<mapsto> JBool True] \<and>
   ''consentStatus'' \<in> dom [''consentStatus'' \<mapsto> JBool True] \<and>
   privacySettings (snd (updateSettings PrivacyHandler_constructor [''consentStatus'' \<mapsto> JBool True]))
     ''dataRetentionDays'' = Some (JNum 30) \<and>
   privacySettings (snd (updateSettings PrivacyHandler_constructor [''consentStatus'' \<mapsto> JBool True]))
     ''consentStatus'' = Some (JBool True)"
proof -
  have a: "''dataRetentionDays'' \<notin> dom [''consentStatus'' \<mapsto> JBool True]" by simp
  have b: "''consentStatus'' \<in> dom [''consentStatus'' \<mapsto> JBool True]" by simp
  show ?thesis
    using a b updateSettings_merge[of PrivacyHandler_constructor "[''consentStatus'' \<mapsto> JBool True]"]
    by (simp add: PrivacyHandler_constructor_def)
qed

section \<open>Model manager: properties\<close>

declare show_nat.simps [simp del]

subsection \<open>Printing and reading version numbers\<close>

lemma digit_cases: "d < 10 \<Longrightarrow> d \<in> {0, 1, 2, 3, 4, 5, 6, 7, 8, 9::nat}"
  by auto

lemma digit_val_digit_char: "d < 10 \<Longrightarrow> digit_val (digit_char d) = d"
  using digit_cases[of d] by (auto simp: digit_val_def digit_char_def)

lemma is_digit_digit_char: "d < 10 \<Longrightarrow> is_digit (digit_char d)"
  using digit_cases[of d] by (auto simp: is_digit_def digit_char_def)

lemma is_digit_not_dot: "is_digit c \<Longrightarrow> c \<noteq> CHR ''.''"
  by (auto simp: is_digit_def)

lemma show_nat_digits: "list_all is_digit (show_nat n)"
proof (induction n rule: show_nat.induct)
  case (1 n)
  show ?case
  proof (cases "n < 10")
    case True
    then show ?thesis by (subst show_nat.simps) (simp add: is_digit_digit_char)
  next
    case False
    then show ?thesis using 1 by (subst show_nat.simps) (simp add: is_digit_digit_char)
  qed
qed

lemma show_nat_value: "fold (\<lambda>c acc. 10 * acc + digit_val c) (show_nat n) 0 = n"
proof (induction n rule: show_nat.induct)
  case (1 n)
  show ?case
  proof (cases "n < 10")
    case True
    then show ?thesis by (subst show_nat.simps) (simp add: digit_val_digit_char)
  next
    case False
    then show ?thesis using 1 by (subst show_nat.simps) (simp add: digit_val_digit_char)
  qed
qed

lemma Number_dec_show_nat: "Number_dec (show_nat n) = VNum n"
  by (simp add: Number_dec_def show_nat_digits show_nat_value)

lemma split_acc_no_dot: "CHR ''.'' \<notin> set s \<Longrightarrow> split_acc cur s = [cur @ s]"
  by (induction s arbitrary: cur) auto

lemma split_acc_dot:
  "CHR ''.'' \<notin> set s \<Longrightarrow> split_acc cur (s @ CHR ''.'' # rest) = (cur @ s) # split_acc [] rest"
  by (induction s arbitrary: cur) auto

lemma show_nat_no_dot: "CHR ''.'' \<notin> set (show_nat n)"
  using show_nat_digits[of n] is_digit_not_dot by (auto simp: list_all_iff)

lemma split_dot_semver: "split_dot (semver a b c) = [show_nat a, show_nat b, show_nat c]"
  unfolding split_dot_def semver_def
  using split_acc_dot[OF show_nat_no_dot, of "[]" a] split_acc_dot[OF show_nat_no_dot, of "[]" b]
    split_acc_no_dot[OF show_nat_no_dot, of "[]" c]
  by simp

lemma versionTriple_semver: "versionTriple (semver a b c) = Some (a, b, c)"
  by (simp add: versionTriple_def split_dot_semver element_def Number_dec_show_nat)

lemma incrementVersion_triple:
  "versionTriple v = Some (a, b, c) \<Longrightarrow> incrementVersion v = semver a b (c + 1)"
  by (auto simp: versionTriple_def incrementVersion_def semver_def Let_def split: vcomp.splits)

lemma semver_100: "semver 1 0 0 = ''1.0.0''"
  by (simp add: semver_def show_nat.simps digit_char_def)

subsection \<open>What every reachable registry satisfies\<close>

text \<open>
  The version the manager hands to new models is never reassigned, every stored version
  has the form \<open>1.0.n\<close>, and a model never exists without its metadata.
\<close>

lemma reachable_invariant:
  "reachable st \<Longrightarrow>
     currentModelVersion st = ''1.0.0'' \<and>
     (\<forall>modelId md. modelMetadata st modelId = Some md \<longrightarrow> (\<exists>n. version md = semver 1 0 n)) \<and>
     (\<forall>modelId. models st modelId \<noteq> None \<longrightarrow> modelMetadata st modelId \<noteq> None)"
proof (induction rule: reachable.induct)
  case reach_new
  show ?case by (simp add: MLModelManager_constructor_def)
next
  case (reach_init st response now modelId cfg)
  have "\<exists>n. ''1.0.0'' = semver 1 0 n"
    using semver_100 by metis
  with reach_init show ?case
    by (auto simp: initializeModel_def Let_def)
next
  case (reach_update st now modelId cfg)
  show ?case
  proof (cases "models st modelId = None \<or> modelMetadata st modelId = None")
    case True
    then show ?thesis using reach_update.IH by (auto simp: updateModel_def split: option.splits)
  next
    case False
    then obtain md where md: "modelMetadata st modelId = Some md" and m: "models st modelId \<noteq> None"
      by auto
    from reach_update.IH md obtain n where n: "version md = semver 1 0 n" by blast
    have inc: "incrementVersion (version md) = semver 1 0 (n + 1)"
      using n by (simp add: incrementVersion_triple versionTriple_semver)
    show ?thesis
      using reach_update.IH md m inc by (auto simp: updateModel_def Let_def)
  qed
next
  case (reach_track st now modelId metrics)
  then show ?case
    by (auto simp: trackPerformance_def split: option.splits)
qed

lemma example_manager_reachable: "reachable example_manager"
  unfolding example_manager_def by (intro reachable.intros)

lemma example_manager_metadata:
  "modelMetadata example_manager ''bias-detection-v2'' =
     Some \<lparr>version = ''1.0.1'', lastUpdated = ''t1'',
           md_parameters = Some \<lparr>ptype = Some ''classifier'', pfeatures = None\<rparr>,
           performance = [(''t2'', [(''biasInstances'', JNum 0)])]\<rparr>"
  by (simp add: example_manager_def trackPerformance_def updateModel_def initializeModel_def
      MLModelManager_constructor_def example_config_def Let_def incrementVersion_def
      split_dot_def Number_dec_def is_digit_def digit_val_def element_def
      show_nat.simps digit_char_def)

text \<open>
  Claim C7.  In every reachable registry, \<open>updateModel\<close> on an id without a model fails
  with the reason \<open>Model not found\<close> and changes nothing; on an id with a model the stored
  version reads as a triple \<open>(a, b, c)\<close>, the reply and the stored version afterwards are
  \<open>a.b.(c+1)\<close>, and the new triple is greater than the old one in the lexicographic
  order on (major, minor, patch).
\<close>

theorem updateModel_version:
  assumes "reachable st"
  shows "(models st modelId = None \<longrightarrow>
            updateModel now st modelId cfg = (Failure ''Model not found'', st)) \<and>
         (models st modelId \<noteq> None \<longrightarrow>
            (\<exists>md md' a b c.
                modelMetadata st modelId = Some md \<and>
                versionTriple (version md) = Some (a, b, c) \<and>
                fst (updateModel now st modelId cfg) = Success (semver a b (c + 1)) \<and>
                modelMetadata (snd (updateModel now st modelId cfg)) modelId = Some md' \<and>
                version md' = semver a b (c + 1) \<and>
                versionTriple (version md') = Some (a, b, c + 1) \<and>
                version_less (a, b, c) (a, b, c + 1)))"
proof (intro conjI impI)
  assume "models st modelId = None"
  then show "updateModel now st modelId cfg = (Failure ''Model not found'', st)"
    by (simp add: updateModel_def)
next
  assume m: "models st modelId \<noteq> None"
  with reachable_invariant[OF assms] obtain md where md: "modelMetadata st modelId = Some md"
    by auto
  with reachable_invariant[OF assms] obtain n where n: "version md = semver 1 0 n"
    by blast
  have t: "versionTriple (version md) = Some (1, 0, n)"
    using n by (simp add: versionTriple_semver)
  have inc: "incrementVersion (version md) = semver 1 0 (n + 1)"
    using t by (rule incrementVersion_triple)
  let ?md' = "md\<lparr>version := semver 1 0 (n + 1), lastUpdated := now,
                   md_parameters := cfg_parameters cfg\<rparr>"
  have "modelMetadata st modelId = Some md \<and>
        versionTriple (version md) = Some (1, 0, n) \<and>
        fst (updateModel now st modelId cfg) = Success (semver 1 0 (n + 1)) \<and>
        modelMetadata (snd (updateModel now st modelId cfg)) modelId = Some ?md' \<and>
        version ?md' = semver 1 0 (n + 1) \<and>
        versionTriple (version ?md') = Some (1, 0, n + 1) \<and>
        version_less (1, 0, n) (1, 0, n + 1)"
    using m md t inc by (simp add: updateModel_def Let_def versionTriple_semver)
  then show "\<exists>md md' a b c.
                modelMetadata st modelId = Some md \<and>
                versionTriple (version md) = Some (a, b, c) \<and>
                fst (updateModel now st modelId cfg) = Success (semver a b (c + 1)) \<and>
                modelMetadata (snd (updateModel now st modelId cfg)) modelId = Some md' \<and>
                version md' = semver a b (c + 1) \<and>
                versionTriple (version md') = Some (a, b, c + 1) \<and>
                version_less (a, b, c) (a, b, c + 1)"
    by blast
qed

theorem updateModel_version_witness:
  "reachable example_manager \<and> models example_manager ''bias-detection-v2'' \<noteq> None \<and>
   models example_manager ''other'' = None \<and>
   updateModel ''t3'' example_manager ''other'' example_config =
     (Failure ''Model not found'', example_manager) \<and>
   (\<exists>md md' a b c.
       modelMetadata example_manager ''bias-detection-v2'' = Some md \<and>
       versionTriple (version md) = Some (a, b, c) \<and>
       fst (updateModel ''t3'' example_manager ''bias-detection-v2'' example_config) =
         Success (semver a b (c + 1)) \<and>
       modelMetadata (snd (updateModel ''t3'' example_manager ''bias-detection-v2'' example_config))
         ''bias-detection-v2'' = Some md' \<and>
       version md' = semver a b (c + 1) \<and>
       versionTriple (version md') = Some (a, b, c + 1) \<and>
       version_less (a, b, c) (a, b, c + 1))"
proof -
  have m: "models example_manager ''bias-detection-v2'' \<noteq> None"
    by (simp add: example_manager_def trackPerformance_def updateModel_def initializeModel_def
        MLModelManager_constructor_def Let_def)
  have n: "models example_manager ''other'' = None"
    by (simp add: example_manager_def trackPerformance_def updateModel_def initializeModel_def
        MLModelManager_constructor_def Let_def)
  show ?thesis
    using m n example_manager_reachable
      updateModel_version[OF example_manager_reachable, of "''bias-detection-v2''" "''t3''" example_config]
      updateModel_version[OF example_manager_reachable, of "''other''" "''t3''" example_config]
    by blast
qed

text \<open>
  Claim C8.  When the fetch fails, for whatever reason, \<open>initializeModel\<close> replies
  \<^verbatim>\<open>{success: true, modelId}\<close> and stores the configuration with data made by
  \<open>getFallbackModelData\<close> from the id and the configuration, tagged \<open>fallbackMode\<close>.
\<close>

theorem initializeModel_fallback:
  assumes "fetch_failed response"
  shows "fst (initializeModel response now st modelId cfg) = Success modelId \<and>
         (\<exists>fb. models (snd (initializeModel response now st modelId cfg)) modelId =
                  Some (cfg\<lparr>cfg_data := Some (Fallback fb)\<rparr>) \<and>
               fb = getFallbackModelData st modelId cfg \<and>
               fallbackMode fb \<and> fb_id fb = modelId \<and>
               fb_features fb =
                 (case cfg_parameters cfg of
                    None \<Rightarrow> []
                  | Some ps \<Rightarrow> (case pfeatures ps of None \<Rightarrow> [] | Some fs \<Rightarrow> fs)))"
  using assms
  by (auto simp: initializeModel_def obtainModelData_def fetch_failed_def getFallbackModelData_def
      Let_def split: fetch_outcome.splits sum.splits)

theorem initializeModel_fallback_witness:
  "fetch_failed (Response False ''Not Found'' (Inr ''{}'')) \<and>
   fst (initializeModel (Response False ''Not Found'' (Inr ''{}'')) ''t0''
          MLModelManager_constructor ''bias-detection-v2'' example_config) =
     Success ''bias-detection-v2'' \<and>
   (\<exists>fb. models (snd (initializeModel (Response False ''Not Found'' (Inr ''{}'')) ''t0''
                         MLModelManager_constructor ''bias-detection-v2'' example_config))
            ''bias-detection-v2'' = Some (example_config\<lparr>cfg_data := Some (Fallback fb)\<rparr>) \<and>
         fb = getFallbackModelData MLModelManager_constructor ''bias-detection-v2'' example_config \<and>
         fallbackMode fb \<and> fb_id fb = ''bias-detection-v2'' \<and>
         fb_features fb =
           (case cfg_parameters example_config of
              None \<Rightarrow> []
            | Some ps \<Rightarrow> (case pfeatures ps of None \<Rightarrow> [] | Some fs \<Rightarrow> fs)))"
proof -
  have f: "fetch_failed (Response False ''Not Found'' (Inr ''{}''))"
    by (simp add: fetch_failed_def)
  show ?thesis
    using f initializeModel_fallback[OF f, of "''t0''" MLModelManager_constructor
        "''bias-detection-v2''" example_config]
    by simp
qed

text \<open>
  Claim C9.  Initializing an id that already has metadata overwrites the metadata whatever
  the fetch does: the version is \<open>1.0.0\<close> again and the performance history is empty.
\<close>

theorem initializeModel_overwrites:
  assumes "reachable st" and "modelMetadata st modelId = Some md"
  shows "modelMetadata (snd (initializeModel response now st modelId cfg)) modelId =
           Some \<lparr>version = ''1.0.0'', lastUpdated = now,
                 md_parameters = cfg_parameters cfg, performance = []\<rparr>"
  using reachable_invariant[OF assms(1)] by (simp add: initializeModel_def Let_def)

theorem initializeModel_overwrites_witness:
  "reachable example_manager \<and>
   modelMetadata example_manager ''bias-detection-v2'' =
     Some \<lparr>version = ''1.0.1'', lastUpdated = ''t1'',
           md_parameters = Some \<lparr>ptype = Some ''classifier'', pfeatures = None\<rparr>,
           performance = [(''t2'', [(''biasInstances'', JNum 0)])]\<rparr> \<and>
   modelMetadata (snd (initializeModel (Response True ''OK'' (Inr ''{}'')) ''t3'' example_manager
                         ''bias-detection-v2'' example_config)) ''bias-detection-v2'' =
     Some \<lparr>version = ''1.0.0'', lastUpdated = ''t3'',
           md_parameters = cfg_parameters example_config, performance = []\<rparr>"
  using example_manager_reachable example_manager_metadata
    initializeModel_overwrites[OF example_manager_reachable example_manager_metadata,
      of "Response True ''OK'' (Inr ''{}'')" "''t3''" example_config]
  by simp

section \<open>Pattern scanner and coordinator: properties\<close>

subsection \<open>The scanning loop\<close>

text \<open>
  The loop returns exactly when the first \<open>exec\<close> finds nothing: a pattern without the
  \<^verbatim>\<open>g\<close> flag finds the same match on every call, so after one match the loop does not
  end.
\<close>

lemma loop_returns:
  assumes "findPatternMatches_loop p s ms = Some r"
  shows "regex_exec p s = None"
  by (rule findPatternMatches_loop.raw_induct[where P = "\<lambda>p s ms r. regex_exec p s = None", OF _ assms])
     (auto split: option.splits)

lemma loop_diverges: "regex_exec p s = Some m \<Longrightarrow> findPatternMatches_loop p s ms = None"
  using loop_returns[of p s ms] by (cases "findPatternMatches_loop p s ms") auto

lemma loop_no_match: "regex_exec p s = None \<Longrightarrow> findPatternMatches_loop p s ms = Some ms"
  by (subst findPatternMatches_loop.simps) simp

lemma find_no_match:
  "regex_exec p (case txt of None \<Rightarrow> [] | Some s \<Rightarrow> s) = None \<Longrightarrow> findPatternMatches txt p = Some []"
  by (simp add: findPatternMatches_def loop_no_match)

lemma category_loop_no_match:
  "\<forall>p \<in> set ps. regex_exec p (case txt of None \<Rightarrow> [] | Some s \<Rightarrow> s) = None \<Longrightarrow>
     analyzeCategoryBias_loop txt ps sc insts = Some (sc, insts)"
  by (induction ps) (auto simp: find_no_match)

lemma detect_loop_no_match:
  "\<forall>c \<in> set cs. \<forall>p \<in> set (getBiasPatterns c). regex_exec p (case txt of None \<Rightarrow> [] | Some s \<Rightarrow> s) = None \<Longrightarrow>
     detectBias_loop txt cs acc = Some acc"
  by (induction cs) (auto simp: analyzeCategoryBias_def category_loop_no_match)

text \<open>A text that no pattern of any category matches yields the empty result map.\<close>

lemma detectBias_no_match:
  "\<forall>c \<in> set biasCategories. \<forall>p \<in> set (getBiasPatterns c).
      regex_exec p (case txt of None \<Rightarrow> [] | Some s \<Rightarrow> s) = None \<Longrightarrow>
   detectBias txt = Some []"
  unfolding detectBias_def by (rule detect_loop_no_match)

text \<open>A text that a pattern matches makes the scan for that pattern run forever.\<close>

lemma findPatternMatches_diverges:
  "regex_exec p (case txt of None \<Rightarrow> [] | Some s \<Rightarrow> s) = Some m \<Longrightarrow> findPatternMatches txt p = None"
  by (simp add: findPatternMatches_def loop_diverges)

lemma detectBias_no_text: "detectBias None = Some []"
  unfolding detectBias_def
  by (rule detect_loop_no_match) (auto simp: getBiasPatterns_def regex_exec_def match_at_def boundary_def word_at_def)

lemma analyzeContent_fails: "analyzeContent sha pst c = Some (Failure ''this.extractContext is not a function'')"
  by (simp add: analyzeContent_def call_method_def BiasDetectionSystem_methods_def)

lemma exec_gender1:
  "regex_exec \<lparr>alternatives = [''he'', ''she''], suffix = '' is assumed'', weight = 0.8\<rparr> example_text
     = Some (''he is assumed'', 0)"
  unfolding example_text_def by code_simp

text \<open>
  Claim C2 at its input.  On the text \<open>he is assumed to be the manager\<close> the first
  \<open>exec\<close> of the first gender pattern finds \<open>he is assumed\<close> at index 0, and so does every
  later one: the scan for that pattern does not return, and neither do the scan of the
  gender category nor \<open>detectBias\<close>.  No instance list, score or severity is produced.
\<close>

theorem gender_scan_never_returns:
  "regex_exec (getBiasPatterns ''gender'' ! 0) example_text = Some (''he is assumed'', 0) \<and>
   findPatternMatches (Some example_text) (getBiasPatterns ''gender'' ! 0) = None \<and>
   analyzeCategoryBias (Some example_text) ''gender'' = None \<and>
   detectBias (Some example_text) = None"
proof -
  have e: "regex_exec (getBiasPatterns ''gender'' ! 0) example_text = Some (''he is assumed'', 0)"
    using exec_gender1 by (simp add: getBiasPatterns_def)
  have f: "findPatternMatches (Some example_text) (getBiasPatterns ''gender'' ! 0) = None"
    by (rule findPatternMatches_diverges[where m = "(''he is assumed'', 0)"]) (simp add: e)
  have f': "findPatternMatches (Some example_text)
              \<lparr>alternatives = [''he'', ''she''], suffix = '' is assumed'', weight = 0.8\<rparr> = None"
    using f by (simp add: getBiasPatterns_def)
  have a: "analyzeCategoryBias (Some example_text) ''gender'' = None"
    using f' by (simp add: analyzeCategoryBias_def getBiasPatterns_def)
  have d: "detectBias (Some example_text) = None"
    using a by (simp add: detectBias_def biasCategories_def)
  show ?thesis using e f a d by simp
qed

text \<open>
  The tier that \<open>calculateSeverity\<close> gives to the score of one match of the first gender
  pattern, 0.8.
\<close>

lemma severity_of_one_match: "calculateSeverity (1 * weight (getBiasPatterns ''gender'' ! 0)) = ''high''"
  by (simp add: getBiasPatterns_def calculateSeverity_def)

lemma hello_gender1:
  "regex_exec \<lparr>alternatives = [''he'', ''she''], suffix = '' is assumed'', weight = 0.8\<rparr> ''hello world'' = None"
  by code_simp

lemma hello_gender2:
  "regex_exec \<lparr>alternatives = [''male'', ''female''], suffix = '' only'', weight = 0.9\<rparr> ''hello world'' = None"
  by code_simp

lemma hello_disability1:
  "regex_exec \<lparr>alternatives = [''normal'', ''abnormal''], suffix = '' person'', weight = 0.9\<rparr> ''hello world'' = None"
  by code_simp

lemma hello_disability2:
  "regex_exec \<lparr>alternatives = [''suffering'', ''victim''], suffix = '' of'', weight = 0.7\<rparr> ''hello world'' = None"
  by code_simp

lemma hello_no_match:
  "\<forall>c \<in> set biasCategories. \<forall>p \<in> set (getBiasPatterns c).
     regex_exec p (case Some ''hello world'' of None \<Rightarrow> [] | Some s \<Rightarrow> s) = None"
  using hello_gender1 hello_gender2 hello_disability1 hello_disability2
  by (auto simp: getBiasPatterns_def split: if_splits)

text \<open>
  Claim C1 at a concrete input.  The text \<open>hello world\<close> matches no pattern of any
  category, and consent has been recorded; \<open>analyzeContent\<close> returns the failure reply
  with the message of the TypeError raised by the call of \<open>extractContext\<close>.
\<close>

theorem analyzeContent_no_success:
  "detectBias (content_text plain_content) = Some [] \<and>
   truthy (get_prop (privacySettings consenting) ''consentStatus'') \<and>
   analyzeContent sha consenting plain_content =
     Some (Failure ''this.extractContext is not a function'')"
proof -
  have "detectBias (Some ''hello world'') = Some []"
    unfolding detectBias_def by (rule detect_loop_no_match) (rule hello_no_match)
  then show ?thesis
    by (simp add: plain_content_def consenting_def updateSettings_def PrivacyHandler_constructor_def
        get_prop_def analyzeContent_fails Let_def)
qed

text \<open>
  Claim C6.  When the recorded consent flag is false, \<open>processData\<close> replies with the
  failure \<open>User consent not provided\<close>; the reply is the same for every input and every
  digest function, so it carries nothing derived from the input; and \<open>analyzeContent\<close>
  returns a failure reply, not a report.
\<close>

theorem processData_requires_consent:
  assumes "privacySettings st ''consentStatus'' = Some (JBool False)"
  shows "processData sha st d = Failure ''User consent not provided'' \<and>
         (\<forall>sha' d'. processData sha' st d' = processData sha st d) \<and>
         (\<exists>reason. analyzeContent sha st d = Some (Failure reason))"
  using assms by (simp add: processData_def get_prop_def analyzeContent_fails)

theorem processData_requires_consent_witness:
  "privacySettings PrivacyHandler_constructor ''consentStatus'' = Some (JBool False) \<and>
   processData (\<lambda>u. u) PrivacyHandler_constructor plain_content = Failure ''User consent not provided'' \<and>
   (\<forall>sha' d'. processData sha' PrivacyHandler_constructor d' =
                 processData (\<lambda>u. u) PrivacyHandler_constructor plain_content) \<and>
   (\<exists>reason. analyzeContent (\<lambda>u. u) PrivacyHandler_constructor plain_content = Some (Failure reason))"
proof -
  have c: "privacySettings PrivacyHandler_constructor ''consentStatus'' = Some (JBool False)"
    by (simp add: PrivacyHandler_constructor_def)
  show ?thesis
    using c processData_requires_consent[OF c, of "\<lambda>u. u" plain_content] by blast
qed

section \<open>Statistical analyzer: properties\<close>

subsection \<open>Counter objects\<close>

lemma not_proto: "k \<notin> set Object_prototype_properties \<Longrightarrow> k \<noteq> ''__proto__''"
  by (auto simp: Object_prototype_properties_def)

lemma read_write_cell:
  "k \<noteq> ''__proto__'' \<Longrightarrow> read_cell (write_cell obj k c) k' = (if k' = k then c else read_cell obj k')"
  by (simp add: read_cell_def write_cell_def AList.update_conv')

lemma keys_write_cell:
  "k \<noteq> ''__proto__'' \<Longrightarrow> fst ` set (write_cell obj k c) = insert k (fst ` set obj)"
  by (simp add: write_cell_def AList.dom_update)

lemma read_cell_unseen:
  "k \<notin> set Object_prototype_properties \<Longrightarrow> k \<notin> fst ` set obj \<Longrightarrow> read_cell obj k = CUndefined"
proof -
  assume a: "k \<notin> set Object_prototype_properties" and "k \<notin> fst ` set obj"
  then have "map_of obj k = None" by (simp add: map_of_eq_None_iff)
  then show ?thesis using a by (simp add: read_cell_def)
qed

lemma read_cell_truthy_own:
  assumes "k \<notin> set Object_prototype_properties" and "\<not> falsy (read_cell obj k)"
  shows "k \<in> fst ` set obj"
proof (rule ccontr)
  assume "k \<notin> fst ` set obj"
  then have "read_cell obj k = CUndefined" using assms(1) by (rule read_cell_unseen[rotated])
  with assms(2) show False by simp
qed

subsection \<open>Counting favorable outcomes\<close>

text \<open>
  What one callback does to the two counters of a group, for a value other than
  \<^verbatim>\<open>__proto__\<close>.
\<close>

lemma countOutcome_fav_read:
  assumes "fst item \<noteq> ''__proto__''"
  shows "read_cell (fst (countOutcome ps acc item)) g =
           (if g = fst item
            then (if favorable ps (snd item)
                  then increment (if falsy (read_cell (fst acc) g) then CNum 0 else read_cell (fst acc) g)
                  else (if falsy (read_cell (fst acc) g) then CNum 0 else read_cell (fst acc) g))
            else read_cell (fst acc) g)"
  using assms by (simp add: countOutcome_def Let_def read_write_cell)

lemma countOutcome_cnt_read:
  assumes "fst item \<noteq> ''__proto__''"
  shows "read_cell (snd (countOutcome ps acc item)) g =
           (if g = fst item
            then increment (if falsy (read_cell (fst acc) g) then CNum 0 else read_cell (snd acc) g)
            else read_cell (snd acc) g)"
  using assms by (simp add: countOutcome_def Let_def read_write_cell)

lemma countOutcome_keys:
  assumes "fst item \<notin> set Object_prototype_properties"
  shows "fst ` set (fst (countOutcome ps acc item)) = insert (fst item) (fst ` set (fst acc))"
proof -
  have p: "fst item \<noteq> ''__proto__''" using assms by (rule not_proto)
  show ?thesis
  proof (cases "falsy (read_cell (fst acc) (fst item))")
    case True
    then show ?thesis using p by (simp add: countOutcome_def Let_def keys_write_cell)
  next
    case False
    then have "fst item \<in> fst ` set (fst acc)" using assms by (intro read_cell_truthy_own)
    then have "insert (fst item) (fst ` set (fst acc)) = fst ` set (fst acc)" by blast
    then show ?thesis using False p by (simp add: countOutcome_def Let_def keys_write_cell)
  qed
qed

lemma favorable_count_snoc:
  "favorable_count ps (items @ [item]) g =
     favorable_count ps items g + (if fst item = g \<and> favorable ps (snd item) then 1 else 0)"
  by (simp add: favorable_count_def)

lemma favorable_count_unseen: "g \<notin> fst ` set items \<Longrightarrow> favorable_count ps items g = 0"
  by (auto simp: favorable_count_def filter_empty_conv)

text \<open>
  After any number of callbacks on values that name no property of \<^verbatim>\<open>Object.prototype\<close>:
  the groups seen are the own keys; the favorable counter of a group is the number of its
  favorable items; the group counter of a group is a count of at least 1 and at least the
  favorable counter.  The group counter need not be the size of the group, since it
  restarts as long as the favorable counter is 0.
\<close>

lemma countOutcomes_invariant:
  assumes "\<forall>it \<in> set items. fst it \<notin> set Object_prototype_properties"
  shows "fst ` set (fst (foldl (countOutcome ps) ([], []) items)) = fst ` set items \<and>
         (\<forall>g \<in> fst ` set items.
             read_cell (fst (foldl (countOutcome ps) ([], []) items)) g =
               CNum (favorable_count ps items g)) \<and>
         (\<forall>g \<in> fst ` set items.
             \<exists>c. read_cell (snd (foldl (countOutcome ps) ([], []) items)) g = CNum c \<and>
                 1 \<le> c \<and> favorable_count ps items g \<le> c)"
  using assms
proof (induction items rule: rev_induct)
  case Nil
  show ?case by simp
next
  case (snoc item items)
  let ?acc = "foldl (countOutcome ps) ([], []) items"
  let ?v = "fst item"
  have plain: "?v \<notin> set Object_prototype_properties" using snoc.prems by simp
  have p: "?v \<noteq> ''__proto__''" using plain by (rule not_proto)
  have prems': "\<forall>it \<in> set items. fst it \<notin> set Object_prototype_properties"
    using snoc.prems by simp
  note IH = snoc.IH[OF prems']
  have keys: "fst ` set (fst ?acc) = fst ` set items"
    by (rule conjunct1[OF IH])
  have fav: "\<forall>g \<in> fst ` set items. read_cell (fst ?acc) g = CNum (favorable_count ps items g)"
    by (rule conjunct1[OF conjunct2[OF IH]])
  have cnt: "\<forall>g \<in> fst ` set items.
               \<exists>c. read_cell (snd ?acc) g = CNum c \<and> 1 \<le> c \<and> favorable_count ps items g \<le> c"
    by (rule conjunct2[OF conjunct2[OF IH]])
  have step: "foldl (countOutcome ps) ([], []) (items @ [item]) = countOutcome ps ?acc item"
    by simp
  have a: "fst ` set (fst (countOutcome ps ?acc item)) = fst ` set (items @ [item])"
    using countOutcome_keys[OF plain, of ps ?acc] keys by simp
  have old: "read_cell (fst (countOutcome ps ?acc item)) g = read_cell (fst ?acc) g \<and>
             read_cell (snd (countOutcome ps ?acc item)) g = read_cell (snd ?acc) g \<and>
             favorable_count ps (items @ [item]) g = favorable_count ps items g"
    if "g \<noteq> ?v" for g
    using that by (simp add: countOutcome_fav_read[OF p] countOutcome_cnt_read[OF p]
        favorable_count_snoc)
  have new: "read_cell (fst (countOutcome ps ?acc item)) ?v =
               CNum (favorable_count ps (items @ [item]) ?v) \<and>
             (\<exists>c. read_cell (snd (countOutcome ps ?acc item)) ?v = CNum c \<and> 1 \<le> c \<and>
                  favorable_count ps (items @ [item]) ?v \<le> c)"
  proof (cases "?v \<in> fst ` set items")
    case False
    have u: "read_cell (fst ?acc) ?v = CUndefined"
      using plain False keys by (intro read_cell_unseen) simp_all
    have z: "favorable_count ps items ?v = 0"
      using False by (rule favorable_count_unseen)
    have f: "read_cell (fst (countOutcome ps ?acc item)) ?v =
               CNum (favorable_count ps (items @ [item]) ?v)"
      by (subst countOutcome_fav_read[OF p]) (simp add: u z favorable_count_snoc)
    have c: "read_cell (snd (countOutcome ps ?acc item)) ?v = CNum 1"
      by (subst countOutcome_cnt_read[OF p]) (simp add: u)
    have "favorable_count ps (items @ [item]) ?v \<le> 1"
      by (simp add: z favorable_count_snoc)
    then show ?thesis using f c by simp
  next
    case True
    obtain c where c: "read_cell (snd ?acc) ?v = CNum c" "1 \<le> c" "favorable_count ps items ?v \<le> c"
      using cnt True by blast
    have fr: "read_cell (fst ?acc) ?v = CNum (favorable_count ps items ?v)"
      using fav True by blast
    have f: "read_cell (fst (countOutcome ps ?acc item)) ?v =
               CNum (favorable_count ps (items @ [item]) ?v)"
      by (subst countOutcome_fav_read[OF p]) (simp add: fr favorable_count_snoc)
    show ?thesis
    proof (cases "favorable_count ps items ?v = 0")
      case z: True
      have "read_cell (snd (countOutcome ps ?acc item)) ?v = CNum 1"
        by (subst countOutcome_cnt_read[OF p]) (simp add: fr z)
      moreover have "favorable_count ps (items @ [item]) ?v \<le> 1"
        by (simp add: z favorable_count_snoc)
      ultimately show ?thesis using f by simp
    next
      case nz: False
      have "read_cell (snd (countOutcome ps ?acc item)) ?v = CNum (c + 1)"
        by (subst countOutcome_cnt_read[OF p]) (simp add: fr nz c(1))
      moreover have "favorable_count ps (items @ [item]) ?v \<le> c + 1"
        using c(3) by (simp add: favorable_count_snoc)
      ultimately show ?thesis using f by simp
    qed
  qed
  have b: "\<forall>g \<in> fst ` set (items @ [item]).
             read_cell (fst (countOutcome ps ?acc item)) g =
               CNum (favorable_count ps (items @ [item]) g)"
  proof
    fix g assume g: "g \<in> fst ` set (items @ [item])"
    show "read_cell (fst (countOutcome ps ?acc item)) g = CNum (favorable_count ps (items @ [item]) g)"
    proof (cases "g = ?v")
      case True
      then show ?thesis using new by simp
    next
      case False
      then have "g \<in> fst ` set items" using g by auto
      then have "read_cell (fst ?acc) g = CNum (favorable_count ps items g)" using fav by blast
      then show ?thesis using old[OF False] by simp
    qed
  qed
  have c: "\<forall>g \<in> fst ` set (items @ [item]).
             \<exists>c. read_cell (snd (countOutcome ps ?acc item)) g = CNum c \<and> 1 \<le> c \<and>
                 favorable_count ps (items @ [item]) g \<le> c"
  proof
    fix g assume g: "g \<in> fst ` set (items @ [item])"
    show "\<exists>c. read_cell (snd (countOutcome ps ?acc item)) g = CNum c \<and> 1 \<le> c \<and>
                 favorable_count ps (items @ [item]) g \<le> c"
    proof (cases "g = ?v")
      case True
      then show ?thesis using new by simp
    next
      case False
      then have "g \<in> fst ` set items" using g by auto
      then have "\<exists>c. read_cell (snd ?acc) g = CNum c \<and> 1 \<le> c \<and> favorable_count ps items g \<le> c"
        using cnt by blast
      then show ?thesis using old[OF False] by simp
    qed
  qed
  show ?case unfolding step using a b c by blast
qed

lemma set_indexed: "set (zip xs [0..<length xs]) = {(xs ! i, i) | i. i < length xs}"
  by (auto simp: set_zip)

lemma keys_indexed: "fst ` set (zip xs [0..<length xs]) = set xs"
  by (auto simp: set_indexed in_set_conv_nth image_iff)

lemma favorable_count_zero:
  "favorable_count ps (zip vs [0..<length vs]) g = 0 \<longleftrightarrow>
     (\<forall>i<length vs. vs ! i = g \<longrightarrow> \<not> favorable ps i)"
  by (auto simp: favorable_count_def filter_empty_conv set_indexed)

lemma fold_js_min2_Num: "fold js_min2 (map Num xs) (Num a) = Num (fold min xs a)"
  by (induction xs arbitrary: a) (simp_all add: js_min2_def min_def)

lemma fold_js_max2_Num: "fold js_max2 (map Num xs) (Num a) = Num (fold max xs a)"
  by (induction xs arbitrary: a) (simp_all add: js_max2_def max_def)

lemma Math_min_Min: "xs \<noteq> [] \<Longrightarrow> Math_min (map Num xs) = Num (Min (set xs))"
proof (cases xs)
  case Nil
  assume "xs \<noteq> []"
  with Nil show ?thesis by simp
next
  case (Cons a list)
  have "Min (set (a # list)) = fold min list a" by (rule Min.set_eq_fold)
  then show ?thesis using Cons by (simp add: Math_min_def js_min2_def fold_js_min2_Num)
qed

lemma Math_max_Max: "xs \<noteq> [] \<Longrightarrow> Math_max (map Num xs) = Num (Max (set xs))"
proof (cases xs)
  case Nil
  assume "xs \<noteq> []"
  with Nil show ?thesis by simp
next
  case (Cons a list)
  have "Max (set (a # list)) = fold max list a" by (rule Max.set_eq_fold)
  then show ?thesis using Cons by (simp add: Math_max_def js_max2_def fold_js_max2_Num)
qed

text \<open>
  Claim C4, as stated, fails: with one prediction above the threshold in group \<open>A\<close> and
  none in group \<open>B\<close> the ratio is 0, outside the interval \<open>(0,1]\<close>.
\<close>

theorem calculateDisparateImpact_zero_counterexample:
  "calculateDisparateImpact [Num 0.9, Num 0.5] [''A'', ''B''] = Num 0"
  by code_simp

text \<open>
  Claim C4, amended.  For a labelling with at least one entry and no value that names a
  property of \<^verbatim>\<open>Object.prototype\<close>: when some labelled prediction exceeds the threshold,
  the ratio is a number in the closed interval \<open>[0,1]\<close>, and it is 0 exactly when some
  attribute value has no prediction above the threshold; when no labelled prediction
  exceeds the threshold, the ratio is NaN.
\<close>

theorem calculateDisparateImpact_range:
  assumes "attributeValues \<noteq> []"
    and "\<forall>v \<in> set attributeValues. v \<notin> set Object_prototype_properties"
  shows "if \<exists>i<length attributeValues. favorable predArray i
         then \<exists>x. calculateDisparateImpact predArray attributeValues = Num x \<and> 0 \<le> x \<and> x \<le> 1 \<and>
                  (x = 0 \<longleftrightarrow>
                     (\<exists>g\<in>set attributeValues.
                         \<forall>i<length attributeValues. attributeValues ! i = g \<longrightarrow> \<not> favorable predArray i))
         else calculateDisparateImpact predArray attributeValues = NaN"
proof -
  let ?items = "zip attributeValues [0..<length attributeValues]"
  let ?F = "fst (countOutcomes predArray attributeValues)"
  let ?C = "snd (countOutcomes predArray attributeValues)"
  have plain: "\<forall>it \<in> set ?items. fst it \<notin> set Object_prototype_properties"
    using assms(2) by (auto simp: set_indexed)
  note inv = countOutcomes_invariant[OF plain, of predArray, folded countOutcomes_def, unfolded keys_indexed]
  have keys: "set (map fst ?F) = set attributeValues"
    using conjunct1[OF inv] by simp
  have favs: "\<forall>g \<in> set attributeValues. read_cell ?F g = CNum (favorable_count predArray ?items g)"
    by (rule conjunct1[OF conjunct2[OF inv]])
  have cnts: "\<forall>g \<in> set attributeValues.
                \<exists>c. read_cell ?C g = CNum c \<and> 1 \<le> c \<and> favorable_count predArray ?items g \<le> c"
    by (rule conjunct2[OF conjunct2[OF inv]])
  define count where "count = (\<lambda>g. case read_cell ?C g of CNum c \<Rightarrow> c | _ \<Rightarrow> 0)"
  define ratio where "ratio = (\<lambda>g. real (favorable_count predArray ?items g) / real (count g))"
  define ratios where "ratios = map ratio (map fst ?F)"
  define lo where "lo = Min (set ratios)"
  define hi where "hi = Max (set ratios)"
  have cnt: "read_cell ?C g = CNum (count g) \<and> 1 \<le> count g \<and>
             favorable_count predArray ?items g \<le> count g"
    if "g \<in> set attributeValues" for g
  proof -
    from cnts that
    have "\<exists>c. read_cell ?C g = CNum c \<and> 1 \<le> c \<and> favorable_count predArray ?items g \<le> c"
      by (rule bspec)
    then obtain c where c: "read_cell ?C g = CNum c" "1 \<le> c"
        "favorable_count predArray ?items g \<le> c"
      by (elim exE conjE)
    have "count g = c" unfolding count_def c(1) by simp
    then show ?thesis using c by simp
  qed
  have quotient: "js_divide (cell_number (read_cell ?F g)) (cell_number (read_cell ?C g)) = Num (ratio g)"
    if "g \<in> set attributeValues" for g
  proof -
    from favs that have "read_cell ?F g = CNum (favorable_count predArray ?items g)"
      by (rule bspec)
    then show ?thesis using cnt[OF that] by (simp add: ratio_def)
  qed
  define quot where
    "quot = (\<lambda>group. js_divide (cell_number (read_cell ?F group)) (cell_number (read_cell ?C group)))"
  have q: "quot g = Num (ratio g)" if "g \<in> set (map fst ?F)" for g
  proof -
    have "g \<in> set attributeValues" using that unfolding keys .
    then show ?thesis unfolding quot_def by (rule quotient)
  qed
  have "map quot (map fst ?F) = map (\<lambda>g. Num (ratio g)) (map fst ?F)"
    by (rule map_cong[OF refl]) (rule q)
  also have "\<dots> = map Num ratios"
    unfolding ratios_def by (simp add: comp_def)
  finally have code_ratios: "map quot (map fst ?F) = map Num ratios" .
  have R: "set ratios = ratio ` set attributeValues"
  proof -
    have "set ratios = ratio ` set (map fst ?F)" unfolding ratios_def by (rule set_map)
    then show ?thesis by (simp only: keys)
  qed
  have ne: "ratios \<noteq> []"
    using keys assms(1) unfolding ratios_def by (cases "map fst ?F") auto
  have fin: "finite (set ratios)" and ne': "set ratios \<noteq> {}"
    using ne by simp_all
  have range: "0 \<le> ratio g \<and> ratio g \<le> 1" if "g \<in> set attributeValues" for g
    using cnt[OF that] by (simp add: ratio_def divide_le_eq)
  have zero: "ratio g = 0 \<longleftrightarrow>
                (\<forall>i<length attributeValues. attributeValues ! i = g \<longrightarrow> \<not> favorable predArray i)"
    if "g \<in> set attributeValues" for g
    using cnt[OF that] favorable_count_zero[of predArray attributeValues g]
    by (simp add: ratio_def)
  have all_range: "\<forall>r\<in>set ratios. 0 \<le> r \<and> r \<le> 1"
    unfolding R using range by blast
  have min_in: "lo \<in> set ratios"
    unfolding lo_def using fin ne' by (rule Min_in)
  have max_in: "hi \<in> set ratios"
    unfolding hi_def using fin ne' by (rule Max_in)
  have min0: "0 \<le> lo" and max1: "hi \<le> 1"
    using all_range min_in max_in by blast+
  have minmax: "lo \<le> hi"
    unfolding lo_def using Min_le[OF fin max_in] .
  have DI: "calculateDisparateImpact predArray attributeValues = js_divide (Num lo) (Num hi)"
  proof -
    have "calculateDisparateImpact predArray attributeValues =
            js_divide (Math_min (map quot (map fst ?F))) (Math_max (map quot (map fst ?F)))"
      unfolding calculateDisparateImpact_def Let_def quot_def ..
    then show ?thesis
      unfolding code_ratios lo_def hi_def using ne by (simp add: Math_min_Min Math_max_Max)
  qed
  show ?thesis
  proof (cases "\<exists>i<length attributeValues. favorable predArray i")
    case True
    then obtain i where i: "i < length attributeValues" "favorable predArray i" by blast
    have gi: "attributeValues ! i \<in> set attributeValues" using i by simp
    have "ratio (attributeValues ! i) \<noteq> 0"
      using zero[OF gi] i by blast
    then have "0 < ratio (attributeValues ! i)"
      using range[OF gi] by linarith
    moreover have "ratio (attributeValues ! i) \<in> set ratios"
      unfolding R using gi by (rule imageI)
    then have "ratio (attributeValues ! i) \<le> hi"
      unfolding hi_def using fin by (intro Max_ge)
    ultimately have maxpos: "0 < hi" by linarith
    have eq: "calculateDisparateImpact predArray attributeValues = Num (lo / hi)"
      using DI maxpos by simp
    have x0: "0 \<le> lo / hi" using min0 maxpos by simp
    have x1: "lo / hi \<le> 1" using minmax maxpos by simp
    have "lo / hi = 0 \<longleftrightarrow> lo = 0" using maxpos by simp
    also have "\<dots> \<longleftrightarrow> (\<exists>g\<in>set attributeValues. ratio g = 0)"
    proof
      assume "lo = 0"
      then have "0 \<in> set ratios" using min_in by simp
      then show "\<exists>g\<in>set attributeValues. ratio g = 0" unfolding R by auto
    next
      assume "\<exists>g\<in>set attributeValues. ratio g = 0"
      then have "0 \<in> set ratios" unfolding R by force
      then have "lo \<le> 0" unfolding lo_def by (rule Min_le[OF fin])
      then show "lo = 0" using min0 by linarith
    qed
    also have "\<dots> \<longleftrightarrow> (\<exists>g\<in>set attributeValues.
                         \<forall>i<length attributeValues. attributeValues ! i = g \<longrightarrow> \<not> favorable predArray i)"
      using zero by blast
    finally have xz: "lo / hi = 0 \<longleftrightarrow> (\<exists>g\<in>set attributeValues.
                         \<forall>i<length attributeValues. attributeValues ! i = g \<longrightarrow> \<not> favorable predArray i)" .
    show ?thesis using True eq x0 x1 xz by auto
  next
    case False
    then have "\<forall>g\<in>set attributeValues. ratio g = 0"
      using zero by blast
    then have "\<forall>r\<in>set ratios. r = 0" unfolding R by blast
    then have "lo = 0" "hi = 0"
      using min_in max_in by blast+
    then show ?thesis using False DI by simp
  qed
qed

theorem calculateDisparateImpact_range_witness:
  "[''A'', ''B'', ''B''] \<noteq> [] \<and>
   list_all (\<lambda>v. v \<notin> set Object_prototype_properties) [''A'', ''B'', ''B''] \<and>
   (\<exists>i<length [''A'', ''B'', ''B'']. favorable [Num 0.9, Num 0.85, Num 0.5] i) \<and>
   (\<exists>x. calculateDisparateImpact [Num 0.9, Num 0.85, Num 0.5] [''A'', ''B'', ''B''] = Num x \<and>
        0 \<le> x \<and> x \<le> 1 \<and>
        (x = 0 \<longleftrightarrow>
           (\<exists>g\<in>set [''A'', ''B'', ''B''].
               \<forall>i<length [''A'', ''B'', ''B'']. [''A'', ''B'', ''B''] ! i = g \<longrightarrow>
                  \<not> favorable [Num 0.9, Num 0.85, Num 0.5] i)))"
proof -
  have ne: "[''A'', ''B'', ''B''] \<noteq> []" by simp
  have pl: "\<forall>v \<in> set [''A'', ''B'', ''B'']. v \<notin> set Object_prototype_properties"
    by (simp add: Object_prototype_properties_def)
  have f: "favorable [Num 0.9, Num 0.85, Num 0.5] 0"
    by (simp add: favorable_def CONFIDENCE_THRESHOLD_def js_greater_def)
  then have ex: "\<exists>i<length [''A'', ''B'', ''B'']. favorable [Num 0.9, Num 0.85, Num 0.5] i"
    by auto
  have pl': "list_all (\<lambda>v. v \<notin> set Object_prototype_properties) [''A'', ''B'', ''B'']"
    using pl by (simp only: list_all_iff)
  show ?thesis
    using ne pl' ex calculateDisparateImpact_range[OF ne pl, of "[Num 0.9, Num 0.85, Num 0.5]"]
    by presburger
qed

text \<open>
  A value that names an inherited property is never initialised: its counters become NaN
  and so does the ratio.
\<close>

lemma prototype_label_example:
  "calculateDisparateImpact [Num 0.9, Num 0.9] [''constructor'', ''A''] = NaN"
  by code_simp

text \<open>
  The restart of the group counter at work: group \<open>A\<close> has one favorable prediction out
  of two and group \<open>B\<close> one out of one, yet the ratio is 1.
\<close>

lemma reset_example:
  "calculateDisparateImpact [Num 0.5, Num 0.9, Num 0.9] [''A'', ''A'', ''B''] = Num 1"
  by code_simp

subsection \<open>Systematic bias\<close>

text \<open>
  The skewness handed to \<open>detectSystematicBias\<close> is NaN for every batch, because the mean
  and the standard deviation reach \<open>calculateSkewness\<close> as tensors.  So
  \<open>skewed_predictions\<close> is never flagged and the severity is never \<open>medium\<close>: the result
  depends on the metadata only.
\<close>

lemma js_divide_NaN: "js_divide x NaN = NaN"
  by (cases x) simp_all

lemma analyzePredictionDistribution_NaN: "analyzePredictionDistribution predArray = NaN"
  by (simp add: analyzePredictionDistribution_def calculateSkewness_def Let_def js_divide_NaN)

lemma skewed_predictions_never_flagged:
  "detectSystematicBias predArray metadata =
     (if checkRepresentation metadata \<noteq> []
      then \<lparr>patterns = [\<lparr>finding_type = ''underrepresentation'',
                          details = ''Some groups are underrepresented in the analysis'',
                          affected = Some (checkRepresentation metadata)\<rparr>],
            sb_severity = ''high''\<rparr>
      else \<lparr>patterns = [], sb_severity = ''low''\<rparr>)"
  by (simp add: detectSystematicBias_def Let_def analyzePredictionDistribution_NaN js_greater_def)

text \<open>
  The batch \<open>[0, 0, 0, 0, 1]\<close> has mean \<open>1/5\<close> and standard deviation \<open>2/5\<close>; on these
  numbers \<open>calculateSkewness\<close> gives the third standardized moment, \<open>3/2\<close>.
\<close>

lemma population_mean_skewed: "population_mean skewed_values = 1 / 5"
  by (simp add: population_mean_def skewed_values_def)

lemma population_std_skewed: "population_std skewed_values = 2 / 5"
proof -
  have "population_std skewed_values = sqrt ((2 / 5)\<^sup>2)"
    by (simp add: population_std_def population_mean_def skewed_values_def power2_eq_square)
  then show ?thesis by simp
qed

lemma documented_skewness:
  "calculateSkewness skewed_batch (Number (Num (population_mean skewed_values)))
     (Number (Num (population_std skewed_values))) = Num (3 / 2)"
  unfolding population_mean_skewed population_std_skewed
  by (simp add: calculateSkewness_def skewed_batch_def skewed_values_def js_sub_def Let_def
      power3_eq_cube)

text \<open>
  Claim C5 at a concrete input.  The skewness of the batch \<open>[0, 0, 0, 0, 1]\<close> is \<open>1.5\<close>,
  greater than 0.5, but the skewness \<open>analyzePredictionDistribution\<close> returns is NaN, and
  with empty metadata \<open>detectSystematicBias\<close> returns no pattern and the severity \<open>low\<close>.
\<close>

theorem skewed_batch_not_flagged:
  "calculateSkewness skewed_batch (Number (Num (population_mean skewed_values)))
     (Number (Num (population_std skewed_values))) = Num (3 / 2) \<and>
   js_greater (Num (3 / 2)) (Num 0.5) \<and>
   analyzePredictionDistribution skewed_batch = NaN \<and>
   detectSystematicBias skewed_batch [] = \<lparr>patterns = [], sb_severity = ''low''\<rparr>"
  using documented_skewness
  by (simp add: analyzePredictionDistribution_NaN skewed_predictions_never_flagged
      checkRepresentation_def PROTECTED_ATTRIBUTES_def js_greater_def)

text \<open>
  In \<open>calculateDistribution\<close> a value that names an inherited property gets a share of
  NaN, the minimum is NaN, and the attribute is not listed although the value has a share
  of one in eleven.
\<close>

lemma prototype_label_hides_group:
  "checkRepresentation
     [(''gender'', [''constructor'', ''m'', ''m'', ''m'', ''m'', ''m'', ''m'', ''m'', ''m'', ''m'', ''m''])] = []"
  by code_simp

section \<open>Mitigation engine: properties\<close>

text \<open>
  With a binding of the threshold to 0.8, the value \<open>determineStrategies\<close> compares with,
  and an evaluation that succeeds, the plan for the example metrics lists exactly
  \<open>reweighting\<close> and carries the balancing weights only.
\<close>

lemma mitigateBias_with_threshold:
  "mitigateBias (Some 0.8) (Inr perf) model example_metrics metadata =
     Some \<lparr>appliedStrategies = [''reweighting''],
           adjustments = \<lparr>adj_weights = Some (applyReweighting metadata),
                           adj_thresholds = None, adj_ensemble = None\<rparr>,
           mit_performance = Some perf\<rparr>"
  by (simp add: mitigateBias_def needsMitigation_def determineStrategies_def example_metrics_def
      REWEIGHTING_def)

text \<open>
  Claim C3 at its input.  \<open>determineStrategies\<close> selects exactly \<open>reweighting\<close>, but
  \<open>needsMitigation\<close> runs first and raises a ReferenceError when it evaluates
  \<^verbatim>\<open>MITIGATION_THRESHOLD\<close> on the first ratio, so \<open>mitigateBias\<close> returns \<^verbatim>\<open>null\<close>.
\<close>

theorem mitigateBias_returns_null:
  "determineStrategies example_metrics = [''reweighting''] \<and>
   needsMitigation MITIGATION_THRESHOLD example_metrics =
     Inl (ReferenceError ''MITIGATION_THRESHOLD is not defined'') \<and>
   mitigateBias MITIGATION_THRESHOLD evaluation model example_metrics metadata = None"
  by (simp add: determineStrategies_def example_metrics_def needsMitigation_def
      MITIGATION_THRESHOLD_def mitigateBias_def REWEIGHTING_def)

end
